theory Spec2Isabelle
  imports Main
begin

section \<open>Python values, exceptions and the outside world\<close>

text \<open>
  The module \<^verbatim>\<open>juniper_junos_common.py\<close> drives a device through the PyEZ library, or,
  on a connection that is not \<^verbatim>\<open>local\<close>, through a session broker (\<^verbatim>\<open>self._pyez_conn\<close>).
  Neither is part of the repository. Every call that leaves the module is recorded in a
  trace, and what the call answers is read from an environment that may depend on the
  calls made so far.
\<close>

datatype pyval = PNone | PBool bool | PInt int | PStr string | PList "pyval list"

text \<open>
  The \<^verbatim>\<open>rollback\<close> option and the \<^verbatim>\<open>id\<close> of \<^verbatim>\<open>rollback_configuration\<close>: absent, a string
  or an integer.
\<close>

datatype rbval = RbNone | RbStr string | RbInt int

text \<open>
  An exception carries the class an \<^verbatim>\<open>except\<close> clause matches it against and its text
  (\<^verbatim>\<open>str(ex)\<close>). The texts of the exceptions Python itself raises are written
  without their quotation marks. \<open>ConnectError\<close> and \<open>RpcError\<close> stand for the PyEZ classes and their
  subclasses, \<open>TimeoutExpiredError\<close> for the ncclient class.
\<close>

datatype exn_class =
  ConnectError | RpcError | TimeoutExpiredError | AttributeError | TypeError | KeyError
  | IOError | UnboundLocalError | OtherException

datatype exn = Exn (cls: exn_class) (message: string)

text \<open>The keyword an \<^verbatim>\<open>open_configuration\<close> RPC is issued with.\<close>

datatype open_flag = Private | Dynamic | Batch | Ephemeral | EphemeralInstance string

record commit_args =
  c_ignore_warning :: pyval
  c_comment :: pyval
  c_confirm :: pyval
  c_timeout :: int
  c_full :: bool
  c_force_sync :: bool
  c_sync :: bool

text \<open>
  The RPC element \<^verbatim>\<open>rpc.py\<close> builds: its tag, its \<^verbatim>\<open>format\<close> attribute, a child for each
  keyword (with the value of the keyword) and the further attributes.
\<close>

type_synonym pydict = "(string \<times> pyval) list"

record rpc_request =
  q_name :: string
  q_format :: string
  q_children :: pydict
  q_attrs :: pydict

text \<open>
  What an RPC answers, as far as \<^verbatim>\<open>rpc.py\<close> looks at it: \<^verbatim>\<open>True\<close>; an XML element, with its
  \<^verbatim>\<open>text\<close>, its serialisation, its \<^verbatim>\<open>str()\<close> and its parse by jxmlease; a \<^verbatim>\<open>dict\<close>, with its
  \<^verbatim>\<open>str()\<close>; or a value of another type, with the name of the type.
\<close>

datatype response =
    RespTrue
  | RespElement (el_text: "string option") (el_xml: string) (el_str: string) (el_parsed: pyval)
  | RespDict (d_str: string)
  | RespOther string

datatype call =
    DevOpen | DevClose
  | DevRpc rpc_request bool
  | DevGetConfig "string option" pydict pydict
  | BrokerGetRpc rpc_request pyval
  | BrokerGetConfig "string option" pydict pydict
  | WriteFile string bool "string option"
  | ConfigLock | ConfigUnlock
  | RpcOpenConfiguration open_flag pyval
  | RpcCloseConfiguration
  | ConfigRescue | ConfigRollback int
  | ConfigCommit commit_args
  | LocalHash string
  | RpcGetChecksum string
  | ScpPut string string | ScpGet string string
  | FtpPut string string | FtpGet string string
  | BrokerOpenConfiguration string pyval
  | BrokerCloseConfiguration
  | BrokerRollback rbval
  | BrokerCommit commit_args
  | BrokerGetChecksum string
  | BrokerScpPut string string | BrokerScpGet string string
  | BrokerFtpPut string string | BrokerFtpGet string string

text \<open>
  The environment: \<open>run\<close> answers a call whose return value the module does not use
  (\<open>None\<close> when the call returns, \<open>Some ex\<close> when it raises); \<open>digest_of\<close> is the MD5 hex
  digest of a local file, or the exception opening or reading it raises; \<open>checksum_of\<close> is
  what \<^verbatim>\<open>findtext(".//checksum")\<close> finds in the reply to the device's checksum RPC
  (\<open>None\<close> when the reply has no such element), or the exception raised on the way;
  \<open>py_int\<close> is Python's \<^verbatim>\<open>int()\<close> on a string, \<open>None\<close> when it raises \<^verbatim>\<open>ValueError\<close>;
  \<open>rpc_reply\<close> is the answer to an RPC, or the exception that building or sending it
  raises; \<open>rpc_xml\<close> is the serialisation of an RPC element by lxml; \<open>bare_text\<close> is the
  text of an exception raised from its class alone; \<open>normpath\<close> and \<open>path_join\<close> are the
  functions of \<^verbatim>\<open>os.path\<close>.
\<close>

record env =
  run :: "call list \<Rightarrow> call \<Rightarrow> exn option"
  digest_of :: "call list \<Rightarrow> string \<Rightarrow> exn + string"
  checksum_of :: "call list \<Rightarrow> call \<Rightarrow> exn + string option"
  py_int :: "string \<Rightarrow> int option"
  rpc_reply :: "call list \<Rightarrow> call \<Rightarrow> exn + response"
  rpc_xml :: "rpc_request \<Rightarrow> string"
  bare_text :: "exn_class \<Rightarrow> string"
  normpath :: "string \<Rightarrow> string"
  path_join :: "string \<Rightarrow> string \<Rightarrow> string"

text \<open>
  The attributes of \<^verbatim>\<open>JuniperJunosModule\<close> the operations below read and write:
  \<^verbatim>\<open>self.conn_type\<close>, \<^verbatim>\<open>self.dev\<close> (absent, or the device handle, of which only the
  \<^verbatim>\<open>timeout\<close> attribute is read), \<^verbatim>\<open>self.config\<close> (absent, or the \<^verbatim>\<open>Config\<close> object, of
  which only \<^verbatim>\<open>mode\<close> is read), the \<^verbatim>\<open>timeout\<close> connection parameter and \<^verbatim>\<open>self.destfile\<close>.
\<close>

record module =
  conn_type :: string
  dev :: "int option"
  config :: "string option"
  timeout_param :: "int option"
  destfile :: "string option"
  trace :: "call list"

text \<open>
  How a method ends: it returns a value, it ends the run through the parent's
  \<^verbatim>\<open>AnsibleModule.fail_json\<close> (which prints the message and exits the process), or it
  lets an exception escape.
\<close>

datatype 'a outcome = Returned 'a | Failed string | Raised exn

fun and_then ::
  "'a outcome \<times> module \<Rightarrow> ('a \<Rightarrow> module \<Rightarrow> 'b outcome \<times> module) \<Rightarrow> 'b outcome \<times> module" where
  "and_then (Returned v, st) k = k v st"
| "and_then (Failed m, st) k = (Failed m, st)"
| "and_then (Raised ex, st) k = (Raised ex, st)"

definition record_call :: "call \<Rightarrow> module \<Rightarrow> module" where
  "record_call c st = st\<lparr>trace := trace st @ [c]\<rparr>"

definition perform :: "env \<Rightarrow> call \<Rightarrow> module \<Rightarrow> exn option \<times> module" where
  "perform e c st = (run e (trace st) c, record_call c st)"

text \<open>The module after further calls, everything else unchanged.\<close>

definition after :: "module \<Rightarrow> call list \<Rightarrow> module" where
  "after st cs = st\<lparr>trace := trace st @ cs\<rparr>"

section \<open>Strings\<close>

fun is_prefix :: "string \<Rightarrow> string \<Rightarrow> bool" where
  "is_prefix [] s = True"
| "is_prefix (a # p) [] = False"
| "is_prefix (a # p) (b # s) = (a = b \<and> is_prefix p s)"

text \<open>Python's \<^verbatim>\<open>p in s\<close> on strings.\<close>

fun py_in :: "string \<Rightarrow> string \<Rightarrow> bool" where
  "py_in p [] = (p = [])"
| "py_in p (c # s) = (is_prefix p (c # s) \<or> py_in p s)"

text \<open>Python's \<^verbatim>\<open>str.strip()\<close>, on the ASCII white space.\<close>

definition is_space :: "char \<Rightarrow> bool" where
  "is_space c = (c \<in> set [CHR '' '', CHR 0x09, CHR 0x0A, CHR 0x0B, CHR 0x0C, CHR 0x0D,
                          CHR 0x1C, CHR 0x1D, CHR 0x1E, CHR 0x1F])"

definition strip :: "string \<Rightarrow> string" where
  "strip s = rev (dropWhile is_space (rev (dropWhile is_space s)))"

section \<open>Closing the connection and the configuration; the failure exit\<close>

text \<open>\<^verbatim>\<open>close(raise_exceptions=False)\<close>: the handle is cleared before \<^verbatim>\<open>dev.close()\<close> runs.\<close>

definition close :: "env \<Rightarrow> bool \<Rightarrow> module \<Rightarrow> unit outcome \<times> module" where
  "close e raise_exceptions st =
     (case dev st of
        None \<Rightarrow> (Returned (), st)
      | Some d \<Rightarrow>
          (case perform e DevClose (st\<lparr>dev := None\<rparr>) of
             (None, st') \<Rightarrow> (Returned (), st')
           | (Some ex, st') \<Rightarrow>
               if cls ex = ConnectError \<or> cls ex = RpcError then
                 (if raise_exceptions then (Raised ex, st') else (Returned (), st'))
               else (Raised ex, st')))"

text \<open>
  Where the code writes \<^verbatim>\<open>self.dev.rpc\<close> while \<^verbatim>\<open>self.dev\<close> is \<^verbatim>\<open>None\<close>, Python raises this
  exception and no call is made.
\<close>

definition no_handle :: exn where
  "no_handle = Exn AttributeError ''NoneType object has no attribute rpc''"

text \<open>
  The \<^verbatim>\<open>try\<close> block of \<^verbatim>\<open>close_configuration\<close>, entered with the reference cleared. The
  lock is released through the \<^verbatim>\<open>Config\<close> object, the other modes are closed through
  \<^verbatim>\<open>self.dev.rpc\<close>.
\<close>

definition teardown :: "env \<Rightarrow> string \<Rightarrow> module \<Rightarrow> exn option \<times> module" where
  "teardown e mode st =
     (if mode = ''exclusive'' then perform e ConfigUnlock st
      else if mode \<in> set [''batch'', ''dynamic'', ''private'', ''ephemeral''] then
        (if dev st = None then (Some no_handle, st) else perform e RpcCloseConfiguration st)
      else (None, st))"

definition session_open :: "module \<Rightarrow> nat" where
  "session_open st = (if conn_type st = ''local'' \<and> config st \<noteq> None then 1 else 0)"

text \<open>
  \<^verbatim>\<open>close_configuration\<close> and \<^verbatim>\<open>fail_json\<close> call each other: \<^verbatim>\<open>fail_json\<close> closes the
  configuration and the connection before it hands over to the parent, and
  \<^verbatim>\<open>close_configuration\<close> reports a failed teardown through \<^verbatim>\<open>fail_json\<close>.
\<close>

function close_configuration :: "env \<Rightarrow> module \<Rightarrow> unit outcome \<times> module"
  and fail_json :: "env \<Rightarrow> string \<Rightarrow> module \<Rightarrow> unit outcome \<times> module" where
  "close_configuration e st =
     (if conn_type st \<noteq> ''local'' then
        (case perform e BrokerCloseConfiguration st of
           (None, st') \<Rightarrow> (Returned (), st')
         | (Some ex, st') \<Rightarrow> (Raised ex, st'))
      else
        (case config st of
           None \<Rightarrow> (Returned (), st)
         | Some mode \<Rightarrow>
             (case teardown e mode (st\<lparr>config := None\<rparr>) of
                (None, st') \<Rightarrow> (Returned (), st')
              | (Some ex, st') \<Rightarrow>
                  if cls ex = ConnectError \<or> cls ex = RpcError then
                    fail_json e (''Unable to close the configuration: '' @ message ex) st'
                  else (Raised ex, st'))))"
| "fail_json e msg st =
     and_then (close_configuration e st) (\<lambda>_ st1.
       (case close e False st1 of
          (Returned _, st2) \<Rightarrow> (Failed msg, st2)
        | (Raised ex, st2) \<Rightarrow>
            if cls ex = TimeoutExpiredError then (Failed msg, st2) else (Raised ex, st2)
        | (Failed m, st2) \<Rightarrow> (Failed m, st2)))"
  by pat_completeness auto

termination
proof (relation "measure (\<lambda>x. case x of
          Inl (e, st) \<Rightarrow> 2 * session_open st
        | Inr (e, msg, st) \<Rightarrow> 2 * session_open st + 1)", goal_cases)
  case 1
  show ?case by simp
next
  case (2 e st mode r st' ex)
  have "st' = snd (teardown e mode (st\<lparr>config := None\<rparr>))"
    using 2 by (metis snd_conv)
  then have "session_open st' = 0" "session_open st = 1"
    using 2 by (simp_all add: session_open_def teardown_def perform_def record_call_def)
  then show ?case by simp
next
  case (3 e msg st)
  show ?case by simp
qed

declare close_configuration.simps [simp del] fail_json.simps [simp del]

text \<open>
  What \<^verbatim>\<open>fail_json\<close> does before it calls the parent: close the configuration, close the
  connection, and swallow a \<open>TimeoutExpiredError\<close> of the latter.
\<close>

definition cleanup :: "env \<Rightarrow> module \<Rightarrow> unit outcome \<times> module" where
  "cleanup e st =
     and_then (close_configuration e st) (\<lambda>_ st1.
       (case close e False st1 of
          (Raised ex, st2) \<Rightarrow>
            if cls ex = TimeoutExpiredError then (Returned (), st2) else (Raised ex, st2)
        | other \<Rightarrow> other))"

text \<open>The calls the failure exit can make.\<close>

definition cleanup_calls :: "call set" where
  "cleanup_calls = {ConfigUnlock, RpcCloseConfiguration, BrokerCloseConfiguration, DevClose}"

section \<open>Checksums\<close>

definition perform_digest :: "env \<Rightarrow> string \<Rightarrow> module \<Rightarrow> (exn + string) \<times> module" where
  "perform_digest e p st = (digest_of e (trace st) p, record_call (LocalHash p) st)"

definition perform_checksum ::
  "env \<Rightarrow> call \<Rightarrow> module \<Rightarrow> (exn + string option) \<times> module" where
  "perform_checksum e c st = (checksum_of e (trace st) c, record_call c st)"

text \<open>
  \<^verbatim>\<open>local_md5(package, action)\<close>: the \<^verbatim>\<open>except Exception\<close> handler turns an error whose
  text has \<^verbatim>\<open>No such file\<close> into the sentinel when the action is \<^verbatim>\<open>get\<close>.
\<close>

definition local_md5 :: "env \<Rightarrow> string \<Rightarrow> string \<Rightarrow> module \<Rightarrow> string outcome \<times> module" where
  "local_md5 e package action st =
     (case perform_digest e package st of
        (Inr checksum, st') \<Rightarrow> (Returned checksum, st')
      | (Inl err, st') \<Rightarrow>
          if py_in ''No such file'' (message err) \<and> action = ''get'' then
            (Returned ''no_file'', st')
          else (Raised err, st'))"

text \<open>The query \<^verbatim>\<open>remote_md5\<close> sends: the device's RPC, or the broker's method.\<close>

definition checksum_query :: "module \<Rightarrow> string \<Rightarrow> call" where
  "checksum_query st remote_file =
     (if conn_type st = ''local'' then RpcGetChecksum remote_file
      else BrokerGetChecksum remote_file)"

text \<open>
  The query itself: the checksum element of the reply, or the exception raised on the
  way, which on a local connection without a device handle is that of the attribute
  access.
\<close>

definition remote_query :: "env \<Rightarrow> string \<Rightarrow> module \<Rightarrow> (exn + string option) \<times> module" where
  "remote_query e remote_file st =
     (if conn_type st = ''local'' \<and> dev st = None then (Inl no_handle, st)
      else perform_checksum e (checksum_query st remote_file) st)"

definition remote_md5_except :: "string \<Rightarrow> exn \<Rightarrow> module \<Rightarrow> string outcome \<times> module" where
  "remote_md5_except action err st =
     (if py_in ''No such file or directory'' (message err) \<and> action = ''put'' then
        (Returned ''no_file'', st)
      else (Raised err, st))"

text \<open>
  \<^verbatim>\<open>remote_md5(remote_file, action)\<close>. A reply without a checksum element makes
  \<^verbatim>\<open>findtext\<close> return \<^verbatim>\<open>None\<close>, on which \<^verbatim>\<open>.strip()\<close> raises inside the \<^verbatim>\<open>try\<close> block.
\<close>

definition remote_md5 :: "env \<Rightarrow> string \<Rightarrow> string \<Rightarrow> module \<Rightarrow> string outcome \<times> module" where
  "remote_md5 e remote_file action st =
     (case remote_query e remote_file st of
        (Inr (Some t), st') \<Rightarrow> (Returned (strip t), st')
      | (Inr None, st') \<Rightarrow>
          remote_md5_except action
            (Exn AttributeError ''NoneType object has no attribute strip'') st'
      | (Inl err, st') \<Rightarrow> remote_md5_except action err st')"

section \<open>Checksum-verified transfers\<close>

text \<open>A call whose exception, if any, is not caught where it is made.\<close>

definition invoke :: "env \<Rightarrow> call \<Rightarrow> module \<Rightarrow> unit outcome \<times> module" where
  "invoke e c st =
     (case perform e c st of
        (None, st') \<Rightarrow> (Returned (), st')
      | (Some ex, st') \<Rightarrow> (Raised ex, st'))"

definition transfer_failed :: "string \<Rightarrow> string \<Rightarrow> string" where
  "transfer_failed a b =
     ''Transfer failed (different MD5 between local and remote) '' @ a @ '' | '' @ b"

definition scp_put_call :: "module \<Rightarrow> string \<Rightarrow> string \<Rightarrow> call" where
  "scp_put_call st local_file remote_file =
     (if conn_type st = ''local'' then ScpPut local_file remote_file
      else BrokerScpPut local_file remote_file)"

definition ftp_put_call :: "module \<Rightarrow> string \<Rightarrow> string \<Rightarrow> call" where
  "ftp_put_call st local_file remote_file =
     (if conn_type st = ''local'' then FtpPut local_file remote_file
      else BrokerFtpPut local_file remote_file)"

definition scp_get_call :: "module \<Rightarrow> string \<Rightarrow> string \<Rightarrow> call" where
  "scp_get_call st remote_file local_file =
     (if conn_type st = ''local'' then ScpGet remote_file local_file
      else BrokerScpGet remote_file local_file)"

definition ftp_get_call :: "module \<Rightarrow> string \<Rightarrow> string \<Rightarrow> call" where
  "ftp_get_call st remote_file local_file =
     (if conn_type st = ''local'' then FtpGet remote_file local_file
      else BrokerFtpGet remote_file local_file)"

definition scp_file_copy_put ::
  "env \<Rightarrow> string \<Rightarrow> string \<Rightarrow> module \<Rightarrow> (string \<times> bool) outcome \<times> module" where
  "scp_file_copy_put e local_file remote_file st =
     and_then (local_md5 e local_file ''put'' st) (\<lambda>local_checksum st1.
     and_then (remote_md5 e remote_file ''put'' st1) (\<lambda>remote_checksum st2.
       if remote_checksum = ''no_file'' \<or> remote_checksum \<noteq> local_checksum then
         and_then (invoke e (scp_put_call st2 local_file remote_file) st2) (\<lambda>_ st3.
         and_then (remote_md5 e remote_file ''put'' st3) (\<lambda>remote_checksum st4.
           if remote_checksum \<noteq> local_checksum then
             and_then (fail_json e (transfer_failed local_checksum remote_checksum) st4)
               (\<lambda>_ st5.
                 (Returned (transfer_failed local_checksum remote_checksum, False), st5))
           else (Returned (''File pushed OK'', True), st4)))
       else (Returned (''File already present, skipping the scp'', False), st2)))"

definition ftp_file_copy_put ::
  "env \<Rightarrow> string \<Rightarrow> string \<Rightarrow> module \<Rightarrow> (string \<times> bool) outcome \<times> module" where
  "ftp_file_copy_put e local_file remote_file st =
     and_then (local_md5 e local_file ''put'' st) (\<lambda>local_checksum st1.
     and_then (remote_md5 e remote_file ''put'' st1) (\<lambda>remote_checksum st2.
       if remote_checksum = ''no_file'' \<or> remote_checksum \<noteq> local_checksum then
         and_then (invoke e (ftp_put_call st2 local_file remote_file) st2) (\<lambda>_ st3.
         and_then (remote_md5 e remote_file ''put'' st3) (\<lambda>remote_checksum st4.
           if remote_checksum \<noteq> local_checksum then
             and_then (fail_json e (transfer_failed local_checksum remote_checksum) st4)
               (\<lambda>_ st5.
                 (Returned (transfer_failed local_checksum remote_checksum, False), st5))
           else (Returned (''File pushed OK'', True), st4)))
       else (Returned (''File already present, skipping the scp'', False), st2)))"



section \<open>Opening the connection and the configuration\<close>

text \<open>
  \<^verbatim>\<open>open()\<close>: the handle is stored before \<^verbatim>\<open>dev.open()\<close> runs; its \<^verbatim>\<open>timeout\<close> attribute,
  assigned after, is read by no code in between. Only a \<open>ConnectError\<close> is caught.
\<close>

definition open_conn :: "env \<Rightarrow> module \<Rightarrow> unit outcome \<times> module" where
  "open_conn e st =
     (case timeout_param st of
        None \<Rightarrow> (Raised (Exn KeyError ''timeout''), st)
      | Some timeout \<Rightarrow>
          (case perform e DevOpen (st\<lparr>dev := Some timeout\<rparr>) of
             (None, st') \<Rightarrow> (Returned (), st')
           | (Some ex, st') \<Rightarrow>
               if cls ex = ConnectError then
                 fail_json e (''Unable to make a PyEZ connection: '' @ message ex) st'
               else (Raised ex, st')))"

definition CONFIG_MODE_CHOICES :: "string list" where
  "CONFIG_MODE_CHOICES = [''exclusive'', ''private'', ''dynamic'', ''batch'', ''ephemeral'']"

definition builtin_warning :: string where
  "builtin_warning = ''uncommitted changes will be discarded on exit''"

text \<open>The first statements of \<^verbatim>\<open>open_configuration\<close>: the filter handed to the RPC.\<close>

definition ignore_warn_of :: "pyval \<Rightarrow> pyval" where
  "ignore_warn_of ignore_warning =
     (case ignore_warning of
        PBool b \<Rightarrow> PBool b
      | PStr s \<Rightarrow> PList [PStr builtin_warning, PStr s]
      | PList xs \<Rightarrow> PList (PStr builtin_warning # xs)
      | _ \<Rightarrow> PList [PStr builtin_warning])"

text \<open>The \<^verbatim>\<open>try\<close> block of \<^verbatim>\<open>open_configuration\<close>: one call, chosen by the mode.\<close>

definition open_call :: "string \<Rightarrow> pyval \<Rightarrow> string option \<Rightarrow> call option" where
  "open_call mode ignore_warn ephemeral_instance =
     (if mode = ''exclusive'' then Some ConfigLock
      else if mode = ''private'' then Some (RpcOpenConfiguration Private ignore_warn)
      else if mode = ''dynamic'' then Some (RpcOpenConfiguration Dynamic ignore_warn)
      else if mode = ''batch'' then Some (RpcOpenConfiguration Batch ignore_warn)
      else if mode = ''ephemeral'' then
        (case ephemeral_instance of
           None \<Rightarrow> Some (RpcOpenConfiguration Ephemeral ignore_warn)
         | Some i \<Rightarrow> Some (RpcOpenConfiguration (EphemeralInstance i) ignore_warn))
      else None)"

definition open_configuration ::
  "env \<Rightarrow> string \<Rightarrow> pyval \<Rightarrow> string option \<Rightarrow> module \<Rightarrow> unit outcome \<times> module" where
  "open_configuration e mode ignore_warning ephemeral_instance st =
     (let ignore_warn = ignore_warn_of ignore_warning in
      if conn_type st \<noteq> ''local'' then
        (case perform e (BrokerOpenConfiguration mode ignore_warn) st of
           (None, st') \<Rightarrow> (Returned (), st')
         | (Some ex, st') \<Rightarrow> (Raised ex, st'))
      else if config st = None then
        and_then (if mode \<notin> set CONFIG_MODE_CHOICES then
                    fail_json e (''Invalid configuration mode: '' @ mode) st
                  else (Returned (), st)) (\<lambda>_ st1.
        and_then (if mode \<noteq> ''ephemeral'' \<and> ephemeral_instance \<noteq> None then
                    fail_json e (''Ephemeral instance is specified while the mode ''
                      @ ''is not ephemeral.Specify the mode as ephemeral or ''
                      @ ''do not specify the instance.'') st1
                  else (Returned (), st1)) (\<lambda>_ st2.
        and_then (if dev st2 = None then open_conn e st2 else (Returned (), st2)) (\<lambda>_ st3.
        and_then (case open_call mode ignore_warn ephemeral_instance of
                    None \<Rightarrow> (Returned (), st3)
                  | Some c \<Rightarrow>
                      (case perform e c st3 of
                         (None, st4) \<Rightarrow> (Returned (), st4)
                       | (Some ex, st4) \<Rightarrow>
                           if cls ex = ConnectError \<or> cls ex = RpcError then
                             fail_json e (''Unable to open the configuration in '' @ mode
                               @ '' mode: '' @ message ex) st4
                           else (Raised ex, st4))) (\<lambda>_ st5.
          (Returned (), st5\<lparr>config := Some mode\<rparr>)))))
      else (Returned (), st))"

section \<open>Rollback\<close>

text \<open>Python's \<^verbatim>\<open>str()\<close> of an integer.\<close>

fun str_nat :: "nat \<Rightarrow> string" where
  "str_nat n =
     (if n < 10 then [''0123456789'' ! n]
      else str_nat (n div 10) @ [''0123456789'' ! (n mod 10)])"

declare str_nat.simps [simp del]

definition str_int :: "int \<Rightarrow> string" where
  "str_int i = (if i < 0 then CHR ''-'' # str_nat (nat (- i)) else str_nat (nat i))"

definition str_rb :: "rbval \<Rightarrow> string" where
  "str_rb v = (case v of RbNone \<Rightarrow> ''None'' | RbStr s \<Rightarrow> s | RbInt i \<Rightarrow> str_int i)"

definition rollback_invalid :: "rbval \<Rightarrow> string" where
  "rollback_invalid v =
     ''The value of the rollback option ('' @ str_rb v @ '') is invalid. ''
       @ ''Must be the string 'rescue' or an int between 0 and 49.''"

text \<open>
  \<^verbatim>\<open>parse_rollback_option\<close>, on the value of the \<^verbatim>\<open>rollback\<close> parameter. After
  \<^verbatim>\<open>fail_json\<close> the method has no statement left and would return \<^verbatim>\<open>None\<close>.
\<close>

definition parse_rollback_option :: "env \<Rightarrow> rbval \<Rightarrow> module \<Rightarrow> rbval outcome \<times> module" where
  "parse_rollback_option e rollback st =
     (if rollback = RbNone \<or> rollback = RbStr ''rescue'' then (Returned rollback, st)
      else
        (case (case rollback of
                 RbStr s \<Rightarrow>
                   (case py_int e s of
                      Some int_val \<Rightarrow> if int_val \<ge> 0 \<and> int_val \<le> 49 then Some int_val else None
                    | None \<Rightarrow> None)
               | _ \<Rightarrow> None) of
           Some int_val \<Rightarrow> (Returned (RbInt int_val), st)
         | None \<Rightarrow>
             and_then (fail_json e (rollback_invalid rollback) st)
               (\<lambda>_ st1. (Returned RbNone, st1))))"

text \<open>
  A call inside \<^verbatim>\<open>try\<close> whose \<open>RpcError\<close> or \<open>ConnectError\<close> is reported through
  \<^verbatim>\<open>fail_json\<close>, the message ending in the text of the exception.
\<close>

definition guarded :: "env \<Rightarrow> call \<Rightarrow> string \<Rightarrow> module \<Rightarrow> unit outcome \<times> module" where
  "guarded e c msg st =
     (case perform e c st of
        (None, st') \<Rightarrow> (Returned (), st')
      | (Some ex, st') \<Rightarrow>
          if cls ex = RpcError \<or> cls ex = ConnectError then fail_json e (msg @ message ex) st'
          else (Raised ex, st'))"

text \<open>
  \<^verbatim>\<open>rollback_configuration(id)\<close>, the argument written \<open>rb_id\<close>. Comparing a string or \<^verbatim>\<open>None\<close> with \<^verbatim>\<open>0\<close> raises
  \<^verbatim>\<open>TypeError\<close>.
\<close>

definition rollback_configuration :: "env \<Rightarrow> rbval \<Rightarrow> module \<Rightarrow> unit outcome \<times> module" where
  "rollback_configuration e rb_id st =
     (if conn_type st \<noteq> ''local'' then
        (case perform e (BrokerRollback rb_id) st of
           (None, st') \<Rightarrow> (Returned (), st')
         | (Some ex, st') \<Rightarrow> (Raised ex, st'))
      else
        and_then (if dev st = None \<or> config st = None then
                    fail_json e ''The device or configuration is not open.'' st
                  else (Returned (), st)) (\<lambda>_ st1.
          if rb_id = RbStr ''rescue'' then
            guarded e ConfigRescue ''Unable to load the rescue configuraton: '' st1
          else
            (case rb_id of
               RbInt i \<Rightarrow>
                 if i \<ge> 0 \<and> i \<le> 49 then
                   guarded e (ConfigRollback i)
                     (''Unable to load the rollback '' @ str_int i @ '' configuraton: '') st1
                 else
                   fail_json e (''Unrecognized rollback configuraton value: '' @ str_int i) st1
             | RbStr s \<Rightarrow>
                 (Raised (Exn TypeError
                    (''>= not supported between instances of ''
                      @ ''str and int'')), st1)
             | RbNone \<Rightarrow>
                 (Raised (Exn TypeError
                    (''>= not supported between instances of ''
                      @ ''NoneType and int'')), st1))))"

section \<open>Commit\<close>


section \<open>The rpc module\<close>

text \<open>
  \<^verbatim>\<open>exit_json\<close> closes a local connection, swallowing a \<open>TimeoutExpiredError\<close>, and hands
  the results to the parent, which ends the run with them.
\<close>

definition exit_json :: "env \<Rightarrow> 'a \<Rightarrow> module \<Rightarrow> 'a outcome \<times> module" where
  "exit_json e payload st =
     (if conn_type st = ''local'' then
        (case close e False st of
           (Returned _, st') \<Rightarrow> (Returned payload, st')
         | (Raised ex, st') \<Rightarrow>
             if cls ex = TimeoutExpiredError then (Returned payload, st') else (Raised ex, st')
         | (Failed m, st') \<Rightarrow> (Failed m, st'))
      else (Returned payload, st))"

text \<open>
  \<^verbatim>\<open>fail_json\<close> where the statements written after the call are left out: the parent ends
  the run, so they are not reached.
\<close>

definition exit_failure :: "env \<Rightarrow> string \<Rightarrow> module \<Rightarrow> 'a outcome \<times> module" where
  "exit_failure e msg st = and_then (fail_json e msg st) (\<lambda>_ s. (Failed msg, s))"

text \<open>
  The parameters of a run of \<^verbatim>\<open>rpc.py\<close>. The two option parsers of the common module,
  \<^verbatim>\<open>parse_ignore_warning_option\<close> and \<^verbatim>\<open>parse_arg_to_list_of_dicts\<close>, rest on Ansible's
  \<^verbatim>\<open>boolean\<close>, \<^verbatim>\<open>safe_eval\<close> and \<^verbatim>\<open>check_type_dict\<close>; they are taken by their results: \<open>Inl msg\<close>
  when the parser calls \<^verbatim>\<open>fail_json\<close> with \<open>msg\<close>, \<open>Inr v\<close> when it returns \<open>v\<close> (for the
  bundles, \<open>None\<close> when the option has no value).
\<close>

record rpc_task =
  t_rpcs :: "string list option"
  t_ignore_warning :: "string + pyval"
  t_formats :: "string list option"
  t_kwargs :: "string + pydict list option"
  t_attrs :: "string + pydict list option"
  t_filter :: "string option"
  t_return_output :: bool
  t_dest :: "string option"
  t_dest_dir :: "string option"
  t_diffs_file :: "string option"
  t_inventory_hostname :: string

text \<open>
  The result of one RPC. The key \<^verbatim>\<open>stdout_lines\<close>, the lines of \<^verbatim>\<open>stdout\<close>, is left out;
  \<open>r_stdout\<close> and \<open>r_parsed_output\<close> are \<open>None\<close> while the key is not set.
\<close>

datatype parsed = Parsed pyval | Raw response

record rpc_result =
  r_msg :: string
  r_rpc :: string
  r_format :: string
  r_kwargs :: "pydict option"
  r_attrs :: "pydict option"
  r_changed :: bool
  r_failed :: bool
  r_stdout :: "string option"
  r_parsed_output :: "parsed option"

text \<open>
  What \<^verbatim>\<open>exit_json\<close> is called with: the result of the only RPC, or the list of results with
  the keys \<^verbatim>\<open>changed\<close> and \<^verbatim>\<open>failed\<close>.
\<close>

datatype exit_payload = SingleResult rpc_result | BatchResults "rpc_result list" bool bool

definition RPC_OUTPUT_FORMAT_CHOICES :: "string list" where
  "RPC_OUTPUT_FORMAT_CHOICES = [''text'', ''xml'', ''json'']"

text \<open>Python's \<^verbatim>\<open>s.replace(a, b)\<close> for single characters, and \<^verbatim>\<open>sep.join(xs)\<close>.\<close>

definition replace_char :: "char \<Rightarrow> char \<Rightarrow> string \<Rightarrow> string" where
  "replace_char a b s = map (\<lambda>c. if c = a then b else c) s"

fun py_join :: "string \<Rightarrow> string list \<Rightarrow> string" where
  "py_join sep [] = []"
| "py_join sep [x] = x"
| "py_join sep (x # y # ys) = x @ sep @ py_join sep (y # ys)"

text \<open>
  The checks of \<^verbatim>\<open>main\<close> on the formats, lines 426 to 448: \<open>Inl msg\<close> stands for
  \<^verbatim>\<open>fail_json(msg)\<close>, \<open>Inr formats\<close> for the list the loop runs over.
\<close>

definition check_formats :: "string list option \<Rightarrow> nat \<Rightarrow> string + string list" where
  "check_formats fs n =
     (let formats = (case fs of None \<Rightarrow> [''xml''] | Some l \<Rightarrow> l) in
      case find (\<lambda>format. format \<notin> set RPC_OUTPUT_FORMAT_CHOICES) formats of
        Some format \<Rightarrow>
          Inl (''The value '' @ format @ '' in formats is invalid. Must be one of: ''
               @ py_join '', '' RPC_OUTPUT_FORMAT_CHOICES)
      | None \<Rightarrow>
          if length formats \<noteq> 1 \<and> length formats \<noteq> n then
            Inl (''The formats option must have a single value, or one value per rpc. There ''
                 @ ''are '' @ str_nat n @ '' rpcs and '' @ str_nat (length formats)
                 @ '' formats.'')
          else if length formats = 1 \<and> n > 1 then Inr (concat (replicate n formats))
          else Inr formats)"

text \<open>The checks on the keyword and attribute bundles, lines 450 to 478.\<close>

definition check_kwargs :: "string + pydict list option \<Rightarrow> nat \<Rightarrow> string + pydict option list" where
  "check_kwargs parsed n =
     (case parsed of
        Inl msg \<Rightarrow> Inl msg
      | Inr (Some kwargs) \<Rightarrow>
          if length kwargs \<noteq> n then
            Inl (''The kwargs option must have one value per rpc. There are '' @ str_nat n
                 @ '' rpcs and '' @ str_nat (length kwargs) @ '' kwargs.'')
          else Inr (map Some kwargs)
      | Inr None \<Rightarrow> Inr (replicate n None))"

definition check_attrs :: "string + pydict list option \<Rightarrow> nat \<Rightarrow> string + pydict option list" where
  "check_attrs parsed n =
     (case parsed of
        Inl msg \<Rightarrow> Inl msg
      | Inr (Some attrs) \<Rightarrow>
          if length attrs \<noteq> n then
            Inl (''The attrs option must have one valueper rpc. There are '' @ str_nat n
                 @ '' rpcs and '' @ str_nat (length attrs) @ '' attrs.'')
          else Inr (map Some attrs)
      | Inr None \<Rightarrow> Inr (replicate n None))"

text \<open>The check on the filter, lines 480 to 487: the message of the failure, if any.\<close>

definition check_filter :: "string option \<Rightarrow> string list \<Rightarrow> string option" where
  "check_filter f rpcs =
     (case f of
        None \<Rightarrow> None
      | Some x \<Rightarrow>
          (case rpcs of
             [r] \<Rightarrow>
               if r \<noteq> ''get-config'' \<and> r \<noteq> ''get_config'' then
                 Some (''The filter option is only valid when the rpcs option value is a ''
                       @ ''single 'get-config' RPC.'')
               else None
           | _ \<Rightarrow>
               Some (''The filter option is only valid when the rpcs option value is a ''
                     @ ''single 'get-config' RPC.'')))"

text \<open>Setting a key of a dictionary: in place when the key is there, at the end otherwise.\<close>

fun dict_set :: "pydict \<Rightarrow> string \<Rightarrow> pyval \<Rightarrow> pydict" where
  "dict_set [] k v = [(k, v)]"
| "dict_set ((k', v') # d) k v = (if k' = k then (k, v) # d else (k', v') # dict_set d k v)"

text \<open>
  \<^verbatim>\<open>save_text_output(name, format, text)\<close> of the common module: the destination follows
  from the parameters, and only a failure to write that is an \<open>IOError\<close> is reported
  through \<^verbatim>\<open>fail_json\<close>. The pair is the path and whether the file is appended to.
\<close>

definition output_file :: "env \<Rightarrow> rpc_task \<Rightarrow> string \<Rightarrow> string \<Rightarrow> module
    \<Rightarrow> (string \<times> bool) option \<times> module" where
  "output_file e t name format st =
     (if name = ''diff'' then
        (case t_diffs_file t of
           Some f \<Rightarrow> (Some (normpath e f, False), st)
         | None \<Rightarrow>
             (case t_dest_dir t of
                Some d \<Rightarrow>
                  (Some (normpath e (path_join e d (t_inventory_hostname t @ ''.diff'')), False),
                   st)
              | None \<Rightarrow> (None, st)))
      else
        (case t_dest t of
           Some f \<Rightarrow>
             (case destfile st of
                None \<Rightarrow> (Some (normpath e f, False), st\<lparr>destfile := Some f\<rparr>)
              | Some g \<Rightarrow> (Some (normpath e f, True), st))
         | None \<Rightarrow>
             (case t_dest_dir t of
                Some d \<Rightarrow>
                  (let name1 = replace_char (CHR ''|'') (CHR ''_'')
                                 (replace_char (CHR '' '') (CHR ''_'') name);
                       name2 = (if name1 = ''config'' then [] else ''_'' @ name1)
                   in (Some (normpath e (path_join e d
                               (t_inventory_hostname t @ name2 @ ''.'' @ format)), False), st))
              | None \<Rightarrow> (None, st))))"

definition save_text_output ::
  "env \<Rightarrow> rpc_task \<Rightarrow> string \<Rightarrow> string \<Rightarrow> string option \<Rightarrow> module \<Rightarrow> unit outcome \<times> module" where
  "save_text_output e t name format text st =
     (case output_file e t name format st of
        (None, st1) \<Rightarrow> (Returned (), st1)
      | (Some (file_path, appending), st1) \<Rightarrow>
          (case perform e (WriteFile file_path appending text) st1 of
             (None, st2) \<Rightarrow> (Returned (), st2)
           | (Some ex, st2) \<Rightarrow>
               if cls ex = IOError then
                 exit_failure e (''Unable to save output. Failed to open the '' @ file_path
                                 @ '' file.'') st2
               else (Raised ex, st2)))"

text \<open>
  One pass of the loop of \<^verbatim>\<open>main\<close>, lines 490 to 637. First the \<^verbatim>\<open>try\<close> block. The
  element the RPC is sent as:
\<close>

definition rpc_element :: "string \<Rightarrow> string \<Rightarrow> pydict option \<Rightarrow> pydict option \<Rightarrow> rpc_request" where
  "rpc_element rpc_string format kwarg attr =
     (if rpc_string = ''get-config'' then
        \<lparr>q_name = rpc_string, q_format = format, q_children = [], q_attrs = []\<rparr>
      else
        \<lparr>q_name = rpc_string, q_format = format,
         q_children = (case kwarg of None \<Rightarrow> []
                       | Some d \<Rightarrow> map (\<lambda>(key, value). (replace_char (CHR ''_'') (CHR ''-'') key, value)) d),
         q_attrs = (case attr of None \<Rightarrow> []
                    | Some d \<Rightarrow> map (\<lambda>(key, value). (replace_char (CHR ''_'') (CHR ''-'') key, value)) d)\<rparr>)"

text \<open>
  For \<^verbatim>\<open>get-config\<close> the dictionary \<^verbatim>\<open>attr\<close>, when there is one, is the object stored in the
  result, so that setting its \<^verbatim>\<open>format\<close> key shows there.
\<close>

definition attrs_after :: "string \<Rightarrow> string \<Rightarrow> pydict option \<Rightarrow> pydict option" where
  "attrs_after rpc_string format attr =
     (if rpc_string = ''get-config'' then
        (case attr of None \<Rightarrow> None | Some d \<Rightarrow> Some (dict_set d ''format'' (PStr format)))
      else attr)"

text \<open>The call that executes the RPC.\<close>

definition rpc_call ::
  "rpc_task \<Rightarrow> pyval \<Rightarrow> string \<Rightarrow> string \<Rightarrow> pydict option \<Rightarrow> pydict option \<Rightarrow> module \<Rightarrow> call" where
  "rpc_call t ignore_warning rpc_string format kwarg attr st =
     (if rpc_string = ''get-config'' then
        (let options = dict_set (case attr of None \<Rightarrow> [] | Some d \<Rightarrow> d) ''format'' (PStr format);
             kw = (case kwarg of None \<Rightarrow> [] | Some d \<Rightarrow> d)
         in if conn_type st = ''local'' then DevGetConfig (t_filter t) options kw
            else BrokerGetConfig (t_filter t) options kw)
      else if conn_type st = ''local'' then
        DevRpc (rpc_element rpc_string format kwarg attr) (format = ''xml'')
      else BrokerGetRpc (rpc_element rpc_string format kwarg attr) ignore_warning)"

definition perform_rpc :: "env \<Rightarrow> call \<Rightarrow> module \<Rightarrow> (exn + response) \<times> module" where
  "perform_rpc e c st =
     (if conn_type st = ''local'' \<and> dev st = None then (Inl no_handle, st)
      else (rpc_reply e (trace st) c, record_call c st))"

text \<open>
  The \<^verbatim>\<open>try\<close> block: \<open>Inl ex\<close> when \<open>ex\<close> leaves it, \<open>Inr (resp, msg)\<close> with the variable
  \<^verbatim>\<open>resp\<close> and the message of success otherwise. On a connection that is not local an
  exception of \<^verbatim>\<open>get_rpc\<close> is raised anew as \<open>RpcError\<close> or \<open>ConnectError\<close> when its text names
  one of them, and is dropped otherwise, which leaves \<^verbatim>\<open>resp\<close> as it was.
\<close>

definition execute ::
  "env \<Rightarrow> rpc_task \<Rightarrow> pyval \<Rightarrow> string \<Rightarrow> string \<Rightarrow> pydict option \<Rightarrow> pydict option
     \<Rightarrow> response option \<Rightarrow> module \<Rightarrow> (exn + response option \<times> string) \<times> module" where
  "execute e t ignore_warning rpc_string format kwarg attr resp st =
     (case perform_rpc e (rpc_call t ignore_warning rpc_string format kwarg attr st) st of
        (Inr r, st1) \<Rightarrow>
          (Inr (Some r, if rpc_string = ''get-config''
                        then ''The \"get-config\" RPC executed successfully.''
                        else ''The RPC executed successfully.''), st1)
      | (Inl ex, st1) \<Rightarrow>
          if rpc_string = ''get-config'' \<or> conn_type st = ''local'' then (Inl ex, st1)
          else if py_in ''RpcError'' (message ex) then
            (Inl (Exn RpcError (bare_text e RpcError)), st1)
          else if py_in ''ConnectError'' (message ex) then
            (Inl (Exn ConnectError (bare_text e ConnectError)), st1)
          else (Inr (resp, ''The RPC executed successfully.''), st1))"

text \<open>
  The statements after the \<^verbatim>\<open>try\<close> block that read the response: the text and the parsed
  output, or the message with which the result is appended as failed, or an exception
  (\<^verbatim>\<open>resp\<close> not bound yet, a \<^verbatim>\<open>dict\<close> where an element is needed).
\<close>

datatype reading = Output "string option" "parsed option" | Unexpected string | Throws exn

definition read_response :: "response option \<Rightarrow> string \<Rightarrow> reading" where
  "read_response resp format =
     (case resp of
        None \<Rightarrow>
          Throws (Exn UnboundLocalError
                    ''local variable resp referenced before assignment'')
      | Some RespTrue \<Rightarrow> Output (Some []) None
      | Some (RespElement text xml s p) \<Rightarrow>
          if format = ''text'' then Output text None
          else if format = ''xml'' then Output (Some xml) (Some (Parsed p))
          else if format = ''json'' then Output (Some s) (Some (Raw (RespElement text xml s p)))
          else Unexpected (''Unexpected format '' @ format @ ''.'')
      | Some (RespDict s) \<Rightarrow>
          if format = ''text'' then
            Throws (Exn AttributeError ''dict object has no attribute text'')
          else if format = ''xml'' then
            Throws (Exn TypeError ''Type dict cannot be serialized.'')
          else if format = ''json'' then Output (Some s) (Some (Raw (RespDict s)))
          else Unexpected (''Unexpected format '' @ format @ ''.'')
      | Some (RespOther ty) \<Rightarrow> Unexpected (''Unexpected response type '' @ ty @ ''.''))"

text \<open>One pass: the result appended to the list, and the variable \<^verbatim>\<open>resp\<close> after it.\<close>

definition run_rpc ::
  "env \<Rightarrow> rpc_task \<Rightarrow> pyval \<Rightarrow> string \<times> string \<times> pydict option \<times> pydict option
     \<Rightarrow> response option \<Rightarrow> module \<Rightarrow> (rpc_result \<times> response option) outcome \<times> module" where
  "run_rpc e t ignore_warning item resp st =
     (case item of (rpc_string0, format, kwarg, attr) \<Rightarrow>
      (let rpc_string = replace_char (CHR ''_'') (CHR ''-'') rpc_string0;
           result = \<lparr>r_msg = [], r_rpc = rpc_string, r_format = format, r_kwargs = kwarg,
                     r_attrs = attrs_after rpc_string format attr, r_changed = False,
                     r_failed = True, r_stdout = None, r_parsed_output = None\<rparr>
       in case execute e t ignore_warning rpc_string format kwarg attr resp st of
            (Inl ex, st1) \<Rightarrow>
              if cls ex = ConnectError \<or> cls ex = RpcError then
                (Returned (result\<lparr>r_msg := ''Unable to execute the RPC: ''
                             @ rpc_xml e (rpc_element rpc_string format kwarg attr)
                             @ ''. Error: '' @ message ex\<rparr>, resp), st1)
              else (Raised ex, st1)
          | (Inr (resp1, msg), st1) \<Rightarrow>
              (case read_response resp1 format of
                 Throws ex \<Rightarrow> (Raised ex, st1)
               | Unexpected m \<Rightarrow> (Returned (result\<lparr>r_msg := m\<rparr>, resp1), st1)
               | Output text_output parsed_output \<Rightarrow>
                   and_then (save_text_output e t rpc_string format text_output st1) (\<lambda>_ st2.
                     (Returned
                        (result\<lparr>r_msg := msg,
                           r_stdout := (if t_return_output t then text_output else None),
                           r_parsed_output := (if t_return_output t then parsed_output else None),
                           r_failed := False\<rparr>, resp1), st2)))))"

fun rpc_loop ::
  "env \<Rightarrow> rpc_task \<Rightarrow> pyval \<Rightarrow> (string \<times> string \<times> pydict option \<times> pydict option) list
     \<Rightarrow> response option \<Rightarrow> rpc_result list \<Rightarrow> module \<Rightarrow> rpc_result list outcome \<times> module" where
  "rpc_loop e t ignore_warning [] resp results st = (Returned results, st)"
| "rpc_loop e t ignore_warning (item # items) resp results st =
     (case run_rpc e t ignore_warning item resp st of
        (Returned (result, resp1), st1) \<Rightarrow>
          rpc_loop e t ignore_warning items resp1 (results @ [result]) st1
      | (Failed m, st1) \<Rightarrow> (Failed m, st1)
      | (Raised ex, st1) \<Rightarrow> (Raised ex, st1))"

text \<open>The loop that computes the overall \<^verbatim>\<open>failed\<close>, lines 644 to 648.\<close>

fun overall_failed :: "rpc_result list \<Rightarrow> bool" where
  "overall_failed [] = True"
| "overall_failed (result # results) =
     (if \<not> r_failed result then False else overall_failed results)"

definition rpc_main :: "env \<Rightarrow> rpc_task \<Rightarrow> module \<Rightarrow> exit_payload outcome \<times> module" where
  "rpc_main e t st =
     (case t_rpcs t of
        None \<Rightarrow> exit_failure e ''The rpcs option must have a value.'' st
      | Some rpcs \<Rightarrow>
     (case t_ignore_warning t of
        Inl msg \<Rightarrow> exit_failure e msg st
      | Inr ignore_warning \<Rightarrow>
     (case check_formats (t_formats t) (length rpcs) of
        Inl msg \<Rightarrow> exit_failure e msg st
      | Inr formats \<Rightarrow>
     (case check_kwargs (t_kwargs t) (length rpcs) of
        Inl msg \<Rightarrow> exit_failure e msg st
      | Inr kwargs \<Rightarrow>
     (case check_attrs (t_attrs t) (length rpcs) of
        Inl msg \<Rightarrow> exit_failure e msg st
      | Inr attrs \<Rightarrow>
     (case check_filter (t_filter t) rpcs of
        Some msg \<Rightarrow> exit_failure e msg st
      | None \<Rightarrow>
          and_then (rpc_loop e t ignore_warning (zip rpcs (zip formats (zip kwargs attrs)))
                      None [] st) (\<lambda>results st1.
            (case results of
               [result] \<Rightarrow> exit_json e (SingleResult result) st1
             | _ \<Rightarrow> exit_json e (BatchResults results False (overall_failed results)) st1))))))))"

text \<open>The results an exit carries, and the calls that execute an RPC.\<close>

fun results_of :: "exit_payload \<Rightarrow> rpc_result list" where
  "results_of (SingleResult r) = [r]"
| "results_of (BatchResults rs changed failed) = rs"

fun is_rpc_call :: "call \<Rightarrow> bool" where
  "is_rpc_call (DevRpc q n) = True"
| "is_rpc_call (DevGetConfig f a k) = True"
| "is_rpc_call (BrokerGetRpc q w) = True"
| "is_rpc_call (BrokerGetConfig f a k) = True"
| "is_rpc_call c = False"

text \<open>
  The state the failure exit leaves: calls of the cleanup are added to the trace, the
  session reference and the device handle may be cleared, nothing else changes.
\<close>

definition cleaned :: "module \<Rightarrow> module \<Rightarrow> bool" where
  "cleaned st st' \<longleftrightarrow>
     (\<exists>tr c d. set tr \<subseteq> cleanup_calls \<and> st' = (after st tr)\<lparr>config := c, dev := d\<rparr>
        \<and> (c = None \<or> c = config st) \<and> (d = None \<or> d = dev st))"

text \<open>The calls that roll the configuration back.\<close>

fun is_rollback_call :: "call \<Rightarrow> bool" where
  "is_rollback_call ConfigRescue = True"
| "is_rollback_call (ConfigRollback i) = True"
| "is_rollback_call (BrokerRollback v) = True"
| "is_rollback_call c = False"

text \<open>A result that carries the name, format and bundles of the RPC it belongs to.\<close>

definition carries ::
  "rpc_result \<Rightarrow> string \<times> string \<times> pydict option \<times> pydict option \<Rightarrow> bool" where
  "carries r item \<longleftrightarrow>
     (case item of (rpc_string, format, kwarg, attr) \<Rightarrow>
        r_rpc r = replace_char (CHR ''_'') (CHR ''-'') rpc_string \<and> r_format r = format
        \<and> r_kwargs r = kwarg \<and> (attr = None \<longrightarrow> r_attrs r = None))"

text \<open>A step from \<open>st\<close> to \<open>st'\<close> that only adds calls of the set \<open>S\<close> to the trace.\<close>

definition extends :: "call set \<Rightarrow> module \<Rightarrow> module \<Rightarrow> bool" where
  "extends S st st' \<longleftrightarrow> (\<exists>tr. trace st' = trace st @ tr \<and> set tr \<subseteq> S)"

section \<open>Concrete environments and states\<close>

text \<open>
  A reading of \<^verbatim>\<open>int()\<close> on plain decimal numerals with an optional minus sign, for the
  examples below.
\<close>

definition digit_of :: "char \<Rightarrow> nat option" where
  "digit_of = map_of [(CHR ''0'', 0), (CHR ''1'', 1), (CHR ''2'', 2), (CHR ''3'', 3),
     (CHR ''4'', 4), (CHR ''5'', 5), (CHR ''6'', 6), (CHR ''7'', 7), (CHR ''8'', 8),
     (CHR ''9'', 9)]"

fun dec_digits :: "nat \<Rightarrow> string \<Rightarrow> nat option" where
  "dec_digits acc [] = Some acc"
| "dec_digits acc (c # cs) =
     (case digit_of c of None \<Rightarrow> None | Some d \<Rightarrow> dec_digits (10 * acc + d) cs)"

definition dec_int :: "string \<Rightarrow> int option" where
  "dec_int s =
     (case s of
        [] \<Rightarrow> None
      | c # cs \<Rightarrow>
          if c = CHR ''-'' then
            (if cs = [] then None else map_option (\<lambda>n. - int n) (dec_digits 0 cs))
          else map_option int (dec_digits 0 s))"

text \<open>A device on which every call succeeds and every file has the same checksum.\<close>

definition quiet_env :: env where
  "quiet_env = \<lparr>run = (\<lambda>tr c. None),
                 digest_of = (\<lambda>tr p. Inr ''0cc175b9c0f1b6a831c399e269772661''),
                 checksum_of = (\<lambda>tr c. Inr (Some ''0cc175b9c0f1b6a831c399e269772661'')),
                 py_int = dec_int,
                 rpc_reply = (\<lambda>tr c. Inr RespTrue),
                 rpc_xml = q_name,
                 bare_text = (\<lambda>c. []),
                 normpath = (\<lambda>p. p),
                 path_join = (\<lambda>d f. d @ ''/'' @ f)\<rparr>"

text \<open>The module as its constructor leaves it on a local connection.\<close>

definition module0 :: module where
  "module0 = \<lparr>conn_type = ''local'', dev = Some 30, config = None, timeout_param = Some 30,
               destfile = None, trace = []\<rparr>"


text \<open>The remote file appears with the SCP upload.\<close>

definition fresh_env :: env where
  "fresh_env = quiet_env\<lparr>
     checksum_of := (\<lambda>tr c.
        if ScpPut ''x.tgz'' ''/var/tmp/x.tgz'' \<in> set tr
        then Inr (Some ''0cc175b9c0f1b6a831c399e269772661'')
        else Inl (Exn RpcError
               ''RpcError(severity: error, message: No such file or directory)''))\<rparr>"

text \<open>The device reports another checksum than the local file has, whatever is sent.\<close>

definition corrupt_env :: env where
  "corrupt_env = quiet_env\<lparr>
     checksum_of := (\<lambda>tr c. Inr (Some ''92eb5ffee6ae2fec3ad71c777531578f''))\<rparr>"


text \<open>A module on a connection held by the session broker.\<close>

definition broker_module :: module where
  "broker_module = \<lparr>conn_type = ''juniper.device.pyez'', dev = None, config = None,
                     timeout_param = Some 30, destfile = None, trace = []\<rparr>"

text \<open>Modules with a configuration session open, in exclusive and in private mode.\<close>

definition locked_module :: module where
  "locked_module = module0\<lparr>config := Some ''exclusive''\<rparr>"

definition private_module :: module where
  "private_module = module0\<lparr>config := Some ''private''\<rparr>"

text \<open>A device that refuses to release the lock.\<close>

definition stuck_env :: env where
  "stuck_env = quiet_env\<lparr>
     run := (\<lambda>tr c. if c = ConfigUnlock then Some (Exn RpcError ''unlock failed'') else None)\<rparr>"




definition timeout_env :: env where
  "timeout_env = quiet_env\<lparr>
     rpc_reply := (\<lambda>tr c. if tr = [] then Inl (Exn OtherException ''timed out'')
                            else Inr RespTrue)\<rparr>"

text \<open>Runs of the rpc module: two RPCs, and three RPCs with given formats.\<close>

definition batch_task :: rpc_task where
  "batch_task = \<lparr>t_rpcs = Some [''get_software_information'', ''get_interface_information''],
                  t_ignore_warning = Inr PNone, t_formats = None, t_kwargs = Inr None,
                  t_attrs = Inr None, t_filter = None, t_return_output = True, t_dest = None,
                  t_dest_dir = None, t_diffs_file = None, t_inventory_hostname = ''r1''\<rparr>"

definition three_task :: "string list \<Rightarrow> rpc_task" where
  "three_task fs = batch_task\<lparr>t_rpcs := Some [''get_a'', ''get_b'', ''get_c''],
                                 t_formats := Some fs\<rparr>"

text \<open>The result of an RPC that answered \<^verbatim>\<open>True\<close>.\<close>

definition ok_result :: "string \<Rightarrow> string \<Rightarrow> rpc_result" where
  "ok_result name format =
     \<lparr>r_msg = ''The RPC executed successfully.'', r_rpc = name, r_format = format,
      r_kwargs = None, r_attrs = None, r_changed = False, r_failed = False,
      r_stdout = Some [], r_parsed_output = None\<rparr>"

section \<open>Auxiliary facts\<close>

subsection \<open>Strings\<close>

lemma is_prefix_append: "is_prefix p (p @ s)"
  by (induction p) simp_all

lemma py_in_append: "py_in p (a @ p @ b)"
proof (induction a)
  case Nil
  show ?case
  proof (cases "p @ b")
    case Nil
    then show ?thesis by simp
  next
    case (Cons c s)
    have "is_prefix p (p @ b)" by (rule is_prefix_append)
    with Cons show ?thesis by simp
  qed
next
  case (Cons c a)
  then show ?case by simp
qed

lemma transfer_failed_names_both:
  "py_in a (transfer_failed a b) \<and> py_in b (transfer_failed a b)"
proof
  show "py_in a (transfer_failed a b)"
    unfolding transfer_failed_def by (rule py_in_append)
  have "py_in b ((''Transfer failed (different MD5 between local and remote) '' @ a @ '' | '')
                  @ b @ [])"
    by (rule py_in_append)
  then show "py_in b (transfer_failed a b)"
    by (simp add: transfer_failed_def)
qed

subsection \<open>States and traces\<close>

lemma record_call_after: "record_call c st = after st [c]"
  by (simp add: record_call_def after_def)

lemma after_after [simp]: "after (after st a) b = after st (a @ b)"
  by (simp add: after_def)

lemma after_Nil [simp]: "after st [] = st"
  by (simp add: after_def)

lemma after_fields [simp]:
  "conn_type (after st cs) = conn_type st" "dev (after st cs) = dev st"
  "config (after st cs) = config st" "timeout_param (after st cs) = timeout_param st"
  "trace (after st cs) = trace st @ cs"
  by (simp_all add: after_def)

lemma after_update [simp]:
  "after (st\<lparr>config := c\<rparr>) cs = (after st cs)\<lparr>config := c\<rparr>"
  "after (st\<lparr>dev := d\<rparr>) cs = (after st cs)\<lparr>dev := d\<rparr>"
  by (simp_all add: after_def)

lemma perform_after: "perform e c st = (run e (trace st) c, after st [c])"
  by (simp add: perform_def record_call_after)

lemma invoke_after: "invoke e c st = (fst (invoke e c st), after st [c])"
  by (simp add: invoke_def perform_after split: option.splits)

lemma checksum_query_after [simp]: "checksum_query (after st cs) f = checksum_query st f"
  by (simp add: checksum_query_def)

lemma remote_md5_no_handle:
  "conn_type st = ''local'' \<Longrightarrow> dev st = None \<Longrightarrow>
     remote_md5 e f action st = (Raised no_handle, st)"
  by (simp add: remote_md5_def remote_query_def remote_md5_except_def no_handle_def)

lemma remote_md5_after:
  "conn_type st \<noteq> ''local'' \<or> dev st \<noteq> None \<Longrightarrow>
     remote_md5 e f action st = (fst (remote_md5 e f action st), after st [checksum_query st f])"
  by (auto simp: remote_md5_def remote_query_def perform_checksum_def remote_md5_except_def
        record_call_after split: sum.splits option.splits)

lemma remote_md5_Returned:
  assumes "fst (remote_md5 e f action st) = Returned c"
  shows "conn_type st \<noteq> ''local'' \<or> dev st \<noteq> None"
proof (rule ccontr)
  assume "\<not> (conn_type st \<noteq> ''local'' \<or> dev st \<noteq> None)"
  then have "remote_md5 e f action st = (Raised no_handle, st)"
    by (simp add: remote_md5_no_handle)
  then show False using assms by simp
qed

lemma remote_md5_ReturnedD:
  "fst (remote_md5 e f action st) = Returned c \<Longrightarrow>
     remote_md5 e f action st = (Returned c, after st [checksum_query st f])"
  using remote_md5_after [OF remote_md5_Returned, of e f action st c e f action] by simp

lemma local_md5_after:
  "local_md5 e p action st = (fst (local_md5 e p action st), after st [LocalHash p])"
  by (simp add: local_md5_def perform_digest_def record_call_after split: sum.splits)

subsection \<open>The failure exit\<close>

lemma and_then_ReturnedE:
  assumes "and_then r k = (Returned v, st')"
  obtains u st1 where "r = (Returned u, st1)" "k u st1 = (Returned v, st')"
  using assms by (cases r; cases "fst r") auto

lemma close_configuration_closed:
  "conn_type st = ''local'' \<Longrightarrow> config st = None \<Longrightarrow> close_configuration e st = (Returned (), st)"
  by (simp add: close_configuration.simps)

lemma close_cases:
  "close e b st = (Returned (), st) \<and> dev st = None
   \<or> (\<exists>x. close e b st = (x, (after st [DevClose])\<lparr>dev := None\<rparr>) \<and> x \<noteq> Failed m)"
  by (cases "dev st"; cases "run e (trace st) DevClose")
     (auto simp: close_def perform_after)

lemma fail_json_cleanup:
  "fail_json e msg st = and_then (cleanup e st) (\<lambda>_ s. (Failed msg, s))"
proof (cases "close_configuration e st")
  case (Pair r st1)
  show ?thesis
  proof (cases r)
    case (Returned u)
    then show ?thesis using Pair
      by (cases "close e False st1")
         (auto simp: fail_json.simps cleanup_def close_def perform_def
               split: option.splits outcome.splits)
  qed (use Pair in \<open>simp_all add: fail_json.simps cleanup_def\<close>)
qed

lemma and_then_fail_json:
  "and_then (fail_json e msg st) k = and_then (cleanup e st) (\<lambda>_ s. (Failed msg, s))"
  unfolding fail_json_cleanup
  by (cases "cleanup e st"; cases "fst (cleanup e st)") auto

lemma fail_json_never_returns: "and_then (fail_json e msg st) k \<noteq> (Returned v, st')"
  unfolding and_then_fail_json
  by (cases "cleanup e st"; cases "fst (cleanup e st)") auto

lemma teardown_result:
  "snd (teardown e mode st) =
     after st (if mode = ''exclusive'' then [ConfigUnlock]
               else if mode \<in> set [''batch'', ''dynamic'', ''private'', ''ephemeral'']
                       \<and> dev st \<noteq> None
               then [RpcCloseConfiguration] else [])"
  by (simp add: teardown_def perform_after)

lemma cleanedI:
  "set tr \<subseteq> cleanup_calls \<Longrightarrow> st' = (after st tr)\<lparr>config := c, dev := d\<rparr> \<Longrightarrow>
     c = None \<or> c = config st \<Longrightarrow> d = None \<or> d = dev st \<Longrightarrow> cleaned st st'"
  unfolding cleaned_def by blast

lemma cleaned_refl: "cleaned st st"
  by (rule cleanedI [where tr = "[]" and c = "config st" and d = "dev st"]) simp_all

lemma cleaned_trans:
  assumes "cleaned a b" "cleaned b c"
  shows "cleaned a c"
proof -
  from assms(1) obtain t1 c1 d1 where
    1: "set t1 \<subseteq> cleanup_calls" "b = (after a t1)\<lparr>config := c1, dev := d1\<rparr>"
       "c1 = None \<or> c1 = config a" "d1 = None \<or> d1 = dev a"
    unfolding cleaned_def by blast
  from assms(2) obtain t2 c2 d2 where
    2: "set t2 \<subseteq> cleanup_calls" "c = (after b t2)\<lparr>config := c2, dev := d2\<rparr>"
       "c2 = None \<or> c2 = config b" "d2 = None \<or> d2 = dev b"
    unfolding cleaned_def by blast
  show ?thesis
  proof (rule cleanedI [where tr = "t1 @ t2" and c = c2 and d = d2])
    show "set (t1 @ t2) \<subseteq> cleanup_calls" using 1(1) 2(1) by simp
    show "c = (after a (t1 @ t2))\<lparr>config := c2, dev := d2\<rparr>"
      using 1(2) 2(2) by (simp add: after_def)
    show "c2 = None \<or> c2 = config a" using 1 2 by auto
    show "d2 = None \<or> d2 = dev a" using 1 2 by auto
  qed
qed

lemma cleaned_close: "cleaned st (snd (close e b st))"
proof -
  have "close e b st = (Returned (), st) \<and> dev st = None
   \<or> (\<exists>x. close e b st = (x, (after st [DevClose])\<lparr>dev := None\<rparr>) \<and> x \<noteq> Failed [])"
    by (rule close_cases)
  then show ?thesis
  proof
    assume "close e b st = (Returned (), st) \<and> dev st = None"
    then show ?thesis by (simp add: cleaned_refl)
  next
    assume "\<exists>x. close e b st = (x, (after st [DevClose])\<lparr>dev := None\<rparr>) \<and> x \<noteq> Failed []"
    then have "snd (close e b st) = (after st [DevClose])\<lparr>config := config st, dev := None\<rparr>"
      by auto
    then show ?thesis
      by (intro cleanedI [where tr = "[DevClose]" and c = "config st" and d = None])
         (simp_all add: cleanup_calls_def)
  qed
qed

lemma cleaned_fail_json_closed:
  assumes "conn_type st = ''local''" "config st = None"
  shows "cleaned st (snd (fail_json e msg st))"
proof -
  have "snd (fail_json e msg st) = snd (close e False st)"
    using assms
    by (cases "close e False st"; cases "fst (close e False st)")
       (auto simp: fail_json.simps close_configuration_closed)
  then show ?thesis by (simp add: cleaned_close)
qed

lemma cleaned_close_configuration: "cleaned st (snd (close_configuration e st))"
proof (cases "conn_type st = ''local''")
  case False
  then have "snd (close_configuration e st)
      = (after st [BrokerCloseConfiguration])\<lparr>config := config st, dev := dev st\<rparr>"
    by (simp add: close_configuration.simps perform_after split: option.splits)
  then show ?thesis
    by (intro cleanedI [where tr = "[BrokerCloseConfiguration]" and c = "config st" and d = "dev st"])
       (simp_all add: cleanup_calls_def)
next
  case local: True
  show ?thesis
  proof (cases "config st")
    case None
    then show ?thesis using local by (simp add: close_configuration_closed cleaned_refl)
  next
    case (Some mode)
    obtain x st' where td: "teardown e mode (st\<lparr>config := None\<rparr>) = (x, st')"
      by (cases "teardown e mode (st\<lparr>config := None\<rparr>)")
    define t1 where "t1 = (if mode = ''exclusive'' then [ConfigUnlock]
               else if mode \<in> set [''batch'', ''dynamic'', ''private'', ''ephemeral'']
                       \<and> dev st \<noteq> None
               then [RpcCloseConfiguration] else [])"
    have st': "st' = (after st t1)\<lparr>config := None, dev := dev st\<rparr>"
      using teardown_result [of e mode "st\<lparr>config := None\<rparr>"] td
      by (simp add: t1_def after_def)
    have "set t1 \<subseteq> cleanup_calls" by (auto simp: t1_def cleanup_calls_def)
    then have c1: "cleaned st st'"
      using st' by (intro cleanedI [where tr = t1 and c = None and d = "dev st"]) simp_all
    show ?thesis
    proof (cases "\<exists>ex. x = Some ex \<and> (cls ex = ConnectError \<or> cls ex = RpcError)")
      case False
      then have "snd (close_configuration e st) = st'"
        using local Some td by (auto simp: close_configuration.simps split: option.splits)
      then show ?thesis using c1 by simp
    next
      case True
      then obtain ex where "x = Some ex" "cls ex = ConnectError \<or> cls ex = RpcError" by blast
      then have eq: "snd (close_configuration e st) =
                 snd (fail_json e (''Unable to close the configuration: '' @ message ex) st')"
        using local Some td by (simp add: close_configuration.simps)
      have "conn_type st' = ''local''" "config st' = None"
        using st' local by simp_all
      then have "cleaned st' (snd (close_configuration e st))"
        unfolding eq by (rule cleaned_fail_json_closed)
      then show ?thesis using c1 cleaned_trans by blast
    qed
  qed
qed

lemma cleaned_cleanup: "cleaned st (snd (cleanup e st))"
proof -
  obtain r st1 where cc: "close_configuration e st = (r, st1)"
    by (cases "close_configuration e st")
  have c1: "cleaned st st1"
    using cleaned_close_configuration [of st e] cc by simp
  show ?thesis
  proof (cases r)
    case (Returned u)
    have "snd (cleanup e st) = snd (close e False st1)"
      using cc Returned
      by (cases "close e False st1"; cases "fst (close e False st1)") (auto simp: cleanup_def)
    then show ?thesis using c1 cleaned_close [of st1 e False] by (auto intro: cleaned_trans)
  qed (use cc c1 in \<open>simp_all add: cleanup_def\<close>)
qed

lemma cleaned_fail_json: "cleaned st (snd (and_then (fail_json e msg st) k))"
proof -
  have "snd (and_then (fail_json e msg st) k) = snd (cleanup e st)"
    unfolding and_then_fail_json
    by (cases "cleanup e st"; cases "fst (cleanup e st)") auto
  then show ?thesis by (simp add: cleaned_cleanup)
qed

lemma cleaned_trace:
  "cleaned st st' \<Longrightarrow> \<exists>tr. trace st' = trace st @ tr \<and> set tr \<subseteq> cleanup_calls"
  unfolding cleaned_def by auto

lemma cleaned_conn_type: "cleaned st st' \<Longrightarrow> conn_type st' = conn_type st"
  unfolding cleaned_def by auto

lemma close_configuration_clears:
  assumes "conn_type st = ''local''"
  shows "config (snd (close_configuration e st)) = None"
proof (cases "config st")
  case None
  then show ?thesis using assms by (simp add: close_configuration_closed)
next
  case (Some mode)
  obtain x st' where td: "teardown e mode (st\<lparr>config := None\<rparr>) = (x, st')"
    by (cases "teardown e mode (st\<lparr>config := None\<rparr>)")
  have st': "config st' = None" "conn_type st' = ''local''"
    using assms teardown_result [of e mode "st\<lparr>config := None\<rparr>"] td
    by (simp_all add: after_def)
  have fj: "config (snd (fail_json e m st')) = None" for m
    using cleaned_fail_json_closed [OF st'(2) st'(1), of e m] st'
    unfolding cleaned_def by auto
  show ?thesis
    using assms Some td st' fj
    by (auto simp: close_configuration.simps split: option.splits)
qed

subsection \<open>The checksum-verified transfers\<close>

lemmas eval_defs =
  local_md5_def perform_digest_def remote_md5_def remote_query_def perform_checksum_def
  remote_md5_except_def
  checksum_query_def invoke_def perform_def record_call_def after_def strip_def is_space_def
  scp_put_call_def ftp_put_call_def scp_get_call_def ftp_get_call_def
  cleanup_def close_def close_configuration.simps
  quiet_env_def module0_def

lemma put_call_after:
  assumes "(put, put_call) \<in>
             {(scp_file_copy_put, scp_put_call), (ftp_file_copy_put, ftp_put_call)}"
  shows "put_call (after st cs) lf rf = put_call st lf rf"
  using assms by (auto simp: scp_put_call_def ftp_put_call_def)

lemma put_unfold:
  assumes "(put, put_call) \<in>
             {(scp_file_copy_put, scp_put_call), (ftp_file_copy_put, ftp_put_call)}"
  shows "put e lf rf st =
     and_then (local_md5 e lf ''put'' st) (\<lambda>local_checksum st1.
     and_then (remote_md5 e rf ''put'' st1) (\<lambda>remote_checksum st2.
       if remote_checksum = ''no_file'' \<or> remote_checksum \<noteq> local_checksum then
         and_then (invoke e (put_call st2 lf rf) st2) (\<lambda>_ st3.
         and_then (remote_md5 e rf ''put'' st3) (\<lambda>remote_checksum st4.
           if remote_checksum \<noteq> local_checksum then
             and_then (fail_json e (transfer_failed local_checksum remote_checksum) st4)
               (\<lambda>_ st5.
                 (Returned (transfer_failed local_checksum remote_checksum, False), st5))
           else (Returned (''File pushed OK'', True), st4)))
       else (Returned (''File already present, skipping the scp'', False), st2)))"
  using assms by (auto simp: scp_file_copy_put_def ftp_file_copy_put_def)






subsection \<open>Calls guarded by the failure exit\<close>

lemma cleanup_no_rollback: "set tr \<subseteq> cleanup_calls \<Longrightarrow> filter is_rollback_call tr = []"
  by (induction tr) (auto simp: cleanup_calls_def)

lemma snd_and_then_Failed: "snd (and_then r (\<lambda>_ s. (Failed m, s))) = snd r"
  by (cases r; cases "fst r") auto

lemma cleaned_fail_json_plain: "cleaned st (snd (fail_json e msg st))"
  unfolding fail_json_cleanup snd_and_then_Failed by (rule cleaned_cleanup)

lemma guarded_trace:
  "\<exists>tr. trace (snd (guarded e c msg st)) = trace st @ c # tr"
proof (cases "run e (trace st) c")
  case None
  then show ?thesis by (simp add: guarded_def perform_after)
next
  case (Some ex)
  show ?thesis
  proof (cases "cls ex = RpcError \<or> cls ex = ConnectError")
    case False
    then show ?thesis using Some by (simp add: guarded_def perform_after)
  next
    case True
    obtain tr where
      "trace (snd (fail_json e (msg @ message ex) (after st [c]))) = trace (after st [c]) @ tr"
      using cleaned_trace [OF cleaned_fail_json_plain] by blast
    then show ?thesis using Some True by (simp add: guarded_def perform_after)
  qed
qed

subsection \<open>The rpc module\<close>

lemma exit_failure_cleanup:
  "exit_failure e msg st = and_then (cleanup e st) (\<lambda>_ s. (Failed msg, s))"
  unfolding exit_failure_def by (rule and_then_fail_json)

lemma exit_failure_not_Returned: "exit_failure e msg st \<noteq> (Returned v, st')"
  unfolding exit_failure_def by (rule fail_json_never_returns)

lemma snd_exit_failure: "snd (exit_failure e msg st) = snd (cleanup e st)"
  unfolding exit_failure_cleanup by (rule snd_and_then_Failed)

lemma exit_failure_trace:
  "\<exists>tr. trace (snd (exit_failure e msg st)) = trace st @ tr \<and> filter is_rpc_call tr = []"
proof -
  obtain tr where tr: "trace (snd (cleanup e st)) = trace st @ tr" "set tr \<subseteq> cleanup_calls"
    using cleaned_trace [OF cleaned_cleanup] by blast
  have "filter is_rpc_call tr = []"
    using tr(2) by (induction tr) (auto simp: cleanup_calls_def)
  then show ?thesis unfolding snd_exit_failure using tr(1) by blast
qed


lemma exit_json_Returned:
  "exit_json e p st = (Returned q, st') \<Longrightarrow> q = p"
  by (cases "close e False st"; cases "fst (close e False st)")
     (auto simp: exit_json_def split: if_splits)

lemma run_rpc_carries:
  assumes "run_rpc e t iw item resp st = (Returned (result, resp1), st1)"
  shows "carries result item"
proof -
  obtain n f k a where item: "item = (n, f, k, a)" by (cases item)
  define rs where "rs = replace_char (CHR ''_'') (CHR ''-'') n"
  obtain x st0 where ex: "execute e t iw rs f k a resp st = (x, st0)"
    by (cases "execute e t iw rs f k a resp st")
  have att: "a = None \<Longrightarrow> attrs_after rs f a = None"
    by (simp add: attrs_after_def)
  show ?thesis
  proof (cases x)
    case (Inl err)
    then show ?thesis
      using assms ex att
      by (auto simp: run_rpc_def item rs_def [symmetric] carries_def Let_def split: if_splits)
  next
    case (Inr b)
    obtain r1 m where b: "b = (r1, m)" by (cases b)
    show ?thesis
    proof (cases "read_response r1 f")
      case (Output tx po)
      then show ?thesis
        using assms ex att Inr b
        by (auto simp: run_rpc_def item rs_def [symmetric] carries_def Let_def
              elim!: and_then_ReturnedE)
    next
      case (Unexpected u)
      then show ?thesis
        using assms ex att Inr b
        by (auto simp: run_rpc_def item rs_def [symmetric] carries_def Let_def)
    next
      case (Throws err)
      then show ?thesis
        using assms ex Inr b
        by (auto simp: run_rpc_def item rs_def [symmetric] Let_def)
    qed
  qed
qed

lemma rpc_loop_carries:
  assumes "rpc_loop e t iw items resp acc st = (Returned rs, st')"
  shows "\<exists>new. rs = acc @ new \<and> list_all2 carries new items"
  using assms
proof (induction items arbitrary: resp acc st)
  case Nil
  then show ?case by simp
next
  case (Cons item items)
  obtain x st1 where r: "run_rpc e t iw item resp st = (x, st1)"
    by (cases "run_rpc e t iw item resp st")
  show ?case
  proof (cases x)
    case (Returned p)
    obtain result resp1 where p: "p = (result, resp1)" by (cases p)
    have c: "carries result item"
      using r Returned p run_rpc_carries by blast
    have "rpc_loop e t iw items resp1 (acc @ [result]) st1 = (Returned rs, st')"
      using Cons.prems r Returned p by simp
    then obtain new where "rs = (acc @ [result]) @ new" "list_all2 carries new items"
      using Cons.IH by blast
    then have "rs = acc @ (result # new) \<and> list_all2 carries (result # new) (item # items)"
      using c by simp
    then show ?thesis by blast
  next
    case (Failed m)
    then show ?thesis using Cons.prems r by simp
  next
    case (Raised ex)
    then show ?thesis using Cons.prems r by simp
  qed
qed


lemma rpc_main_Returned:
  assumes "rpc_main e t st = (Returned p, st')" and "t_rpcs t = Some rpcs"
  obtains iw formats kwargs attrs rs st1 where
    "t_ignore_warning t = Inr iw"
    "check_formats (t_formats t) (length rpcs) = Inr formats"
    "check_kwargs (t_kwargs t) (length rpcs) = Inr kwargs"
    "check_attrs (t_attrs t) (length rpcs) = Inr attrs"
    "check_filter (t_filter t) rpcs = None"
    "rpc_loop e t iw (zip rpcs (zip formats (zip kwargs attrs))) None [] st = (Returned rs, st1)"
    "p = (case rs of [r] \<Rightarrow> SingleResult r
          | _ \<Rightarrow> BatchResults rs False (overall_failed rs))"
proof -
  obtain iw where iw: "t_ignore_warning t = Inr iw"
    using assms by (cases "t_ignore_warning t") (auto simp: rpc_main_def exit_failure_not_Returned)
  obtain formats where f: "check_formats (t_formats t) (length rpcs) = Inr formats"
    using assms iw
    by (cases "check_formats (t_formats t) (length rpcs)")
       (auto simp: rpc_main_def exit_failure_not_Returned)
  obtain kwargs where k: "check_kwargs (t_kwargs t) (length rpcs) = Inr kwargs"
    using assms iw f
    by (cases "check_kwargs (t_kwargs t) (length rpcs)")
       (auto simp: rpc_main_def exit_failure_not_Returned)
  obtain attrs where a: "check_attrs (t_attrs t) (length rpcs) = Inr attrs"
    using assms iw f k
    by (cases "check_attrs (t_attrs t) (length rpcs)")
       (auto simp: rpc_main_def exit_failure_not_Returned)
  have c: "check_filter (t_filter t) rpcs = None"
    using assms iw f k a
    by (cases "check_filter (t_filter t) rpcs")
       (auto simp: rpc_main_def exit_failure_not_Returned)
  have eq: "and_then (rpc_loop e t iw (zip rpcs (zip formats (zip kwargs attrs))) None [] st)
          (\<lambda>results st1.
            (case results of
               [result] \<Rightarrow> exit_json e (SingleResult result) st1
             | _ \<Rightarrow> exit_json e (BatchResults results False (overall_failed results)) st1))
        = (Returned p, st')"
    using assms iw f k a c by (simp add: rpc_main_def)
  then obtain rs st1 where
    l: "rpc_loop e t iw (zip rpcs (zip formats (zip kwargs attrs))) None [] st = (Returned rs, st1)"
    and x: "(case rs of
               [result] \<Rightarrow> exit_json e (SingleResult result) st1
             | _ \<Rightarrow> exit_json e (BatchResults rs False (overall_failed rs)) st1)
            = (Returned p, st')"
    by (rule and_then_ReturnedE)
  have "p = (case rs of [r] \<Rightarrow> SingleResult r
          | _ \<Rightarrow> BatchResults rs False (overall_failed rs))"
    using x by (auto split: list.splits dest: exit_json_Returned)
  then show ?thesis using that iw f k a c l by blast
qed

lemma concat_replicate_single: "concat (replicate n [x]) = replicate n x"
  by (induction n) simp_all

lemma check_formats_Inr:
  assumes "check_formats fs n = Inr formats"
  shows "n \<le> length formats"
    and "fs = Some [f] \<Longrightarrow> set formats \<subseteq> {f}"
    and "fs = Some l \<Longrightarrow> length l = n \<Longrightarrow> formats = l"
    and "fs = None \<Longrightarrow> set formats \<subseteq> {''xml''}"
    and "fs = Some l \<Longrightarrow> length l = 1 \<or> length l = n"
  using assms
  by (auto simp: check_formats_def Let_def length_Suc_conv concat_replicate_single
        split: option.splits if_splits)

lemma check_kwargs_Inr:
  assumes "check_kwargs p n = Inr kwargs"
  shows "length kwargs = n" and "p = Inr None \<Longrightarrow> kwargs = replicate n None"
    and "p = Inr (Some l) \<Longrightarrow> length l = n"
  using assms by (auto simp: check_kwargs_def split: sum.splits option.splits if_splits)

lemma check_attrs_Inr:
  assumes "check_attrs p n = Inr attrs"
  shows "length attrs = n" and "p = Inr None \<Longrightarrow> attrs = replicate n None"
    and "p = Inr (Some l) \<Longrightarrow> length l = n"
  using assms by (auto simp: check_attrs_def split: sum.splits option.splits if_splits)

lemma carries_zip:
  assumes c: "list_all2 carries rs (zip a (zip b (zip k d)))"
      and l: "length a = n" "n \<le> length b" "length k = n" "length d = n"
  shows "length rs = n" and "map r_format rs = take n b" and "map r_kwargs rs = k"
    and "\<forall>i < n. d ! i = None \<longrightarrow> r_attrs (rs ! i) = None"
proof -
  show n: "length rs = n"
    using list_all2_lengthD [OF c] l by simp
  have nth: "carries (rs ! i) (a ! i, b ! i, k ! i, d ! i)" if "i < n" for i
    using list_all2_nthD [OF c, of i] that n l by simp
  show "map r_format rs = take n b"
    using nth n l by (intro nth_equalityI) (auto simp: carries_def)
  show "map r_kwargs rs = k"
    using nth n l by (intro nth_equalityI) (auto simp: carries_def)
  show "\<forall>i < n. d ! i = None \<longrightarrow> r_attrs (rs ! i) = None"
    using nth by (auto simp: carries_def)
qed

lemma results_of_case [simp]:
  "results_of (case rs of [r] \<Rightarrow> SingleResult r
               | _ \<Rightarrow> BatchResults rs c f) = rs"
  by (cases rs; cases "tl rs") auto

lemma rpc_main_results:
  assumes rpcs: "t_rpcs t = Some rpcs" and ret: "rpc_main e t st = (Returned p, st')"
  shows "length (results_of p) = length rpcs
          \<and> (\<forall>f. t_formats t = Some [f] \<longrightarrow> (\<forall>r \<in> set (results_of p). r_format r = f))
          \<and> (\<forall>fs. t_formats t = Some fs \<and> length fs = length rpcs \<longrightarrow>
                 map r_format (results_of p) = fs)
          \<and> (\<forall>l. t_kwargs t = Inr (Some l) \<longrightarrow> map r_kwargs (results_of p) = map Some l)
          \<and> (t_kwargs t = Inr None \<longrightarrow> (\<forall>r \<in> set (results_of p). r_kwargs r = None))
          \<and> (t_attrs t = Inr None \<longrightarrow> (\<forall>r \<in> set (results_of p). r_attrs r = None))"
proof -
  let ?n = "length rpcs"
  from ret rpcs obtain iw formats kwargs attrs rs st1 where
    cf: "check_formats (t_formats t) ?n = Inr formats" and
    ck: "check_kwargs (t_kwargs t) ?n = Inr kwargs" and
    ca: "check_attrs (t_attrs t) ?n = Inr attrs" and
    loop: "rpc_loop e t iw (zip rpcs (zip formats (zip kwargs attrs))) None [] st
             = (Returned rs, st1)" and
    p: "p = (case rs of [r] \<Rightarrow> SingleResult r
              | _ \<Rightarrow> BatchResults rs False (overall_failed rs))"
    by (rule rpc_main_Returned)
  have rs: "results_of p = rs" by (simp add: p)
  have c: "list_all2 carries rs (zip rpcs (zip formats (zip kwargs attrs)))"
    using rpc_loop_carries [OF loop] by simp
  note z = carries_zip [OF c refl check_formats_Inr(1) [OF cf] check_kwargs_Inr(1) [OF ck]
             check_attrs_Inr(1) [OF ca]]
  have 1: "length (results_of p) = ?n" using z(1) rs by simp
  have 2: "\<forall>r \<in> set (results_of p). r_format r = f" if "t_formats t = Some [f]" for f
  proof -
    have "set (map r_format rs) \<subseteq> set formats"
      unfolding z(2) by (rule set_take_subset)
    then show ?thesis
      using check_formats_Inr(2) [OF cf that] rs by auto
  qed
  have 3: "map r_format (results_of p) = fs" if "t_formats t = Some fs \<and> length fs = ?n" for fs
    using z(2) check_formats_Inr(3) [OF cf, of fs] that rs by simp
  have 4: "map r_kwargs (results_of p) = map Some l" if "t_kwargs t = Inr (Some l)" for l
    using z(3) ck that rs by (auto simp: check_kwargs_def split: if_splits)
  have 5: "\<forall>r \<in> set (results_of p). r_kwargs r = None" if "t_kwargs t = Inr None"
  proof -
    have "map r_kwargs rs = replicate ?n None"
      using z(3) check_kwargs_Inr(2) [OF ck that] by simp
    then have "set (map r_kwargs rs) \<subseteq> {None}" by (auto simp: set_replicate_conv_if)
    then show ?thesis using rs by auto
  qed
  have 6: "\<forall>r \<in> set (results_of p). r_attrs r = None" if "t_attrs t = Inr None"
  proof
    fix r
    assume "r \<in> set (results_of p)"
    then obtain i where i: "i < ?n" "r = rs ! i"
      using rs z(1) by (auto simp: in_set_conv_nth)
    have "attrs ! i = None"
      using check_attrs_Inr(2) [OF ca that] i(1) by simp
    then show "r_attrs r = None" using z(4) i by simp
  qed
  show ?thesis
    using 1 2 3 4 5 6 by blast
qed

lemmas rpc_eval_defs =
  rpc_main_def check_formats_def check_kwargs_def check_attrs_def check_filter_def
  RPC_OUTPUT_FORMAT_CHOICES_def run_rpc_def execute_def perform_rpc_def rpc_call_def
  rpc_element_def attrs_after_def read_response_def save_text_output_def output_file_def
  replace_char_def exit_json_def exit_failure_def fail_json.simps Let_def

lemma str_nat_digit [simp]: "n < 10 \<Longrightarrow> str_nat n = [''0123456789'' ! n]"
  by (simp add: str_nat.simps)

subsection \<open>Calls added by a step\<close>

lemma extends_refl: "extends S st st"
  by (simp add: extends_def)

lemma extends_trans: "extends S a b \<Longrightarrow> extends S b c \<Longrightarrow> extends S a c"
  unfolding extends_def by fastforce

lemma extends_mono: "extends S a b \<Longrightarrow> S \<subseteq> T \<Longrightarrow> extends T a b"
  unfolding extends_def by blast

lemma extends_after: "set cs \<subseteq> S \<Longrightarrow> extends S st (after st cs)"
  by (simp add: extends_def)

lemma extends_update [simp]:
  "extends S st (st'\<lparr>config := c\<rparr>) = extends S st st'"
  "extends S st (st'\<lparr>dev := d\<rparr>) = extends S st st'"
  "extends S (st\<lparr>config := c\<rparr>) st' = extends S st st'"
  "extends S (st\<lparr>dev := d\<rparr>) st' = extends S st st'"
  by (simp_all add: extends_def)

lemma extends_cleaned: "cleaned st st' \<Longrightarrow> extends cleanup_calls st st'"
  using cleaned_trace by (auto simp: extends_def)

lemma extends_fail_json: "extends cleanup_calls st (snd (fail_json e msg st))"
  by (rule extends_cleaned [OF cleaned_fail_json_plain])

lemma extends_and_then:
  assumes "extends S st (snd r)"
      and "\<And>v s. r = (Returned v, s) \<Longrightarrow> extends S s (snd (k v s))"
  shows "extends S st (snd (and_then r k))"
proof (cases r)
  case (Pair x s)
  show ?thesis
  proof (cases x)
    case (Returned v)
    then show ?thesis
      using assms Pair extends_trans [of S st s "snd (k v s)"] by simp
  qed (use assms(1) Pair in simp_all)
qed

lemma extends_open_conn: "extends (cleanup_calls \<union> {DevOpen}) st (snd (open_conn e st))"
proof (cases "timeout_param st")
  case None
  then show ?thesis by (simp add: open_conn_def extends_refl)
next
  case (Some t)
  let ?st1 = "(after st [DevOpen])\<lparr>dev := Some t\<rparr>"
  have 1: "extends (cleanup_calls \<union> {DevOpen}) st ?st1"
    by (simp add: extends_after)
  show ?thesis
  proof (cases "run e (trace st) DevOpen")
    case None
    then show ?thesis using Some 1 by (simp add: open_conn_def perform_after)
  next
    case ex: (Some ex)
    show ?thesis
    proof (cases "cls ex = ConnectError")
      case False
      then show ?thesis using Some ex 1 by (simp add: open_conn_def perform_after)
    next
      case True
      have "extends (cleanup_calls \<union> {DevOpen}) ?st1
              (snd (fail_json e (''Unable to make a PyEZ connection: '' @ message ex) ?st1))"
        by (rule extends_mono [OF extends_fail_json]) auto
      from extends_trans [OF 1 this] show ?thesis
        using Some ex True
        by (simp add: open_conn_def perform_after)
    qed
  qed
qed

lemma extends_open_configuration:
  "extends (cleanup_calls \<union> {DevOpen, BrokerOpenConfiguration mode (ignore_warn_of iw)}
             \<union> set_option (open_call mode (ignore_warn_of iw) ei))
     st (snd (open_configuration e mode iw ei st))"
    (is "extends ?S st _")
proof (cases "conn_type st = ''local''")
  case False
  have "snd (open_configuration e mode iw ei st)
          = after st [BrokerOpenConfiguration mode (ignore_warn_of iw)]"
    using False by (simp add: open_configuration_def Let_def perform_after split: option.splits)
  then show ?thesis by (simp add: extends_after)
next
  case local: True
  show ?thesis
  proof (cases "config st")
    case (Some m)
    then show ?thesis using local by (simp add: open_configuration_def Let_def extends_refl)
  next
    case None
    have fj: "extends ?S s (snd (fail_json e m s))" for m s
      by (rule extends_mono [OF extends_fail_json]) auto
    have oc: "extends ?S s (snd (open_conn e s))" for s
      by (rule extends_mono [OF extends_open_conn]) auto
    have call: "extends ?S s
        (snd (case open_call mode (ignore_warn_of iw) ei of
                    None \<Rightarrow> (Returned (), s)
                  | Some c \<Rightarrow>
                      (case perform e c s of
                         (None, st4) \<Rightarrow> (Returned (), st4)
                       | (Some ex, st4) \<Rightarrow>
                           if cls ex = ConnectError \<or> cls ex = RpcError then
                             fail_json e (''Unable to open the configuration in '' @ mode
                               @ '' mode: '' @ message ex) st4
                           else (Raised ex, st4))))" for s
    proof (cases "open_call mode (ignore_warn_of iw) ei")
      case None
      then show ?thesis by (simp add: extends_refl)
    next
      case (Some c)
      have 1: "extends ?S s (after s [c])"
        using Some by (intro extends_after) simp
      show ?thesis
      proof (cases "run e (trace s) c")
        case None
        then show ?thesis using Some 1 by (simp add: perform_after)
      next
        case ex: (Some ex)
        show ?thesis
          using Some ex 1 fj [of "after s [c]"] extends_trans
          by (auto simp: perform_after)
      qed
    qed
    have chk: "extends ?S s (snd (if b then fail_json e m s else (Returned (), s)))" for b m s
      by (cases b) (simp_all only: if_True if_False snd_conv fj extends_refl)
    have opn: "extends ?S s (snd (if dev s = None then open_conn e s else (Returned (), s)))" for s
      by (cases "dev s = None") (simp_all only: if_True if_False snd_conv oc extends_refl simp_thms)
    show ?thesis
      unfolding open_configuration_def Let_def
      using local None
      apply (simp only: if_False if_True simp_thms)
      apply (rule extends_and_then [OF chk])
      apply (rule extends_and_then [OF chk])
      apply (rule extends_and_then [OF opn])
      apply (rule extends_and_then [OF call])
      apply (simp add: extends_refl)
      done
  qed
qed

section \<open>The decision procedure of the verified put\<close>

text \<open>
  Claim C1. For \<^verbatim>\<open>scp_file_copy_put\<close> and \<^verbatim>\<open>ftp_file_copy_put\<close> alike, with \<open>lc\<close> the local
  checksum and \<open>rc\<close> the remote checksum queried first: if \<open>rc\<close> equals \<open>lc\<close> and is not
  the sentinel, the method returns the status of a file already present and the only calls
  made are the two checksum computations (no transfer). If \<open>rc\<close> is the sentinel or
  differs, the transfer is the next call; when it returns, the remote checksum is queried
  again; if that checksum \<open>rc'\<close> equals \<open>lc\<close> the method returns the status of a pushed file,
  and if it differs the method goes through the failure exit with a message that contains
  both \<open>lc\<close> and \<open>rc'\<close>: the cleanup runs and the run fails with that message.
\<close>

theorem checksum_verified_put:
  assumes v: "(put, put_call) \<in>
                {(scp_file_copy_put, scp_put_call), (ftp_file_copy_put, ftp_put_call)}"
      and lc: "fst (local_md5 e lf ''put'' st) = Returned lc"
      and rc: "fst (remote_md5 e rf ''put'' (after st [LocalHash lf])) = Returned rc"
  shows "(rc = lc \<and> rc \<noteq> ''no_file'' \<longrightarrow>
            put e lf rf st =
              (Returned (''File already present, skipping the scp'', False),
               after st [LocalHash lf, checksum_query st rf]))
       \<and> (rc = ''no_file'' \<or> rc \<noteq> lc \<longrightarrow>
            (\<exists>tr. trace (snd (put e lf rf st)) =
                    trace st @ [LocalHash lf, checksum_query st rf, put_call st lf rf] @ tr)
          \<and> (fst (invoke e (put_call st lf rf) (after st [LocalHash lf, checksum_query st rf]))
                = Returned () \<longrightarrow>
               (\<exists>tr. trace (snd (put e lf rf st)) =
                    trace st @ [LocalHash lf, checksum_query st rf, put_call st lf rf,
                                checksum_query st rf] @ tr)
             \<and> (\<forall>rc'. fst (remote_md5 e rf ''put''
                         (after st [LocalHash lf, checksum_query st rf, put_call st lf rf]))
                        = Returned rc' \<longrightarrow>
                  (rc' = lc \<longrightarrow>
                     put e lf rf st =
                       (Returned (''File pushed OK'', True),
                        after st [LocalHash lf, checksum_query st rf, put_call st lf rf,
                                  checksum_query st rf]))
                \<and> (rc' \<noteq> lc \<longrightarrow>
                     put e lf rf st =
                       and_then (cleanup e (after st [LocalHash lf, checksum_query st rf,
                                   put_call st lf rf, checksum_query st rf]))
                         (\<lambda>_ s. (Failed (transfer_failed lc rc'), s))
                   \<and> py_in lc (transfer_failed lc rc')
                   \<and> py_in rc' (transfer_failed lc rc')))))"
    (is "?skip \<and> (?go \<longrightarrow> ?performed \<and> (?returns \<longrightarrow> ?requeried \<and> ?decided))")
proof -
  let ?q = "checksum_query st rf" and ?x = "put_call st lf rf"
  let ?st2 = "after st [LocalHash lf, ?q]"
  let ?st3 = "after st [LocalHash lf, ?q, ?x]"
  let ?st4 = "after st [LocalHash lf, ?q, ?x, ?q]"
  have l: "local_md5 e lf ''put'' st = (Returned lc, after st [LocalHash lf])"
    using local_md5_after [of e lf "''put''" st] lc by simp
  have r: "remote_md5 e rf ''put'' (after st [LocalHash lf]) = (Returned rc, ?st2)"
    using remote_md5_ReturnedD [OF rc] by simp
  have h: "conn_type ?st3 \<noteq> ''local'' \<or> dev ?st3 \<noteq> None"
    using remote_md5_Returned [OF rc] by simp
  have pc: "put_call ?st2 lf rf = ?x"
    using v by (rule put_call_after)
  have i: "invoke e ?x ?st2 = (fst (invoke e ?x ?st2), ?st3)"
    using invoke_after [of e ?x ?st2] by simp
  have r2: "remote_md5 e rf ''put'' ?st3 = (fst (remote_md5 e rf ''put'' ?st3), ?st4)"
    using remote_md5_after [OF h, of e rf "''put''"] by simp
  note unfold = put_unfold [OF v, of e lf rf st]
  have skip: ?skip
    unfolding unfold using l r by simp
  define k where "k = (\<lambda>(remote_checksum :: string) st4.
           if remote_checksum \<noteq> lc then
             and_then (fail_json e (transfer_failed lc remote_checksum) st4)
               (\<lambda>_ st5. (Returned (transfer_failed lc remote_checksum, False), st5))
           else (Returned (''File pushed OK'', True), st4))"
  have rest: "put e lf rf st =
         and_then (invoke e ?x ?st2) (\<lambda>_ st3. and_then (remote_md5 e rf ''put'' st3) k)"
    if ?go
    unfolding unfold k_def using l r that pc by simp
  have tail: "\<exists>tr. trace (snd (and_then (remote_md5 e rf ''put'' ?st3) k)) = trace ?st4 @ tr"
  proof (cases "fst (remote_md5 e rf ''put'' ?st3)")
    case (Returned c)
    show ?thesis
    proof (cases "c = lc")
      case True
      then show ?thesis using r2 Returned by (simp add: k_def)
    next
      case False
      obtain tr where "trace (snd (and_then (fail_json e (transfer_failed lc c) ?st4)
               (\<lambda>_ st5. (Returned (transfer_failed lc c, False), st5)))) = trace ?st4 @ tr"
        using cleaned_trace [OF cleaned_fail_json] by blast
      then show ?thesis using r2 Returned False by (simp add: k_def)
    qed
  next
    case (Failed m)
    then show ?thesis using r2 by simp
  next
    case (Raised ex)
    then show ?thesis using r2 by simp
  qed
  have requeried: ?requeried if ?go ?returns
  proof -
    have "put e lf rf st = and_then (remote_md5 e rf ''put'' ?st3) k"
      using rest [OF that(1)] i that(2) by simp
    then show ?thesis using tail by simp
  qed
  have performed: ?performed if go: ?go
  proof (cases "fst (invoke e ?x ?st2)")
    case (Returned u)
    then obtain tr where "trace (snd (put e lf rf st)) =
        trace st @ [LocalHash lf, ?q, ?x, ?q] @ tr"
      using requeried [OF go] by auto
    then have "trace (snd (put e lf rf st)) = trace st @ [LocalHash lf, ?q, ?x] @ (?q # tr)"
      by simp
    then show ?thesis by blast
  next
    case (Failed m)
    then show ?thesis using rest [OF go] i by simp
  next
    case (Raised ex)
    then show ?thesis using rest [OF go] i by simp
  qed
  have decided: ?decided if ?go ?returns
  proof (intro allI impI)
    fix rc'
    assume q: "fst (remote_md5 e rf ''put'' ?st3) = Returned rc'"
    have eq: "put e lf rf st =
        (if rc' \<noteq> lc then
             and_then (fail_json e (transfer_failed lc rc') ?st4)
               (\<lambda>_ st5. (Returned (transfer_failed lc rc', False), st5))
           else (Returned (''File pushed OK'', True), ?st4))"
      using rest [OF that(1)] i that(2) r2 q by (simp add: k_def)
    show "(rc' = lc \<longrightarrow> put e lf rf st = (Returned (''File pushed OK'', True), ?st4))
                \<and> (rc' \<noteq> lc \<longrightarrow>
                     put e lf rf st =
                       and_then (cleanup e ?st4) (\<lambda>_ s. (Failed (transfer_failed lc rc'), s))
                   \<and> py_in lc (transfer_failed lc rc')
                   \<and> py_in rc' (transfer_failed lc rc'))"
      unfolding eq using transfer_failed_names_both [of lc rc']
      by (simp add: and_then_fail_json)
  qed
  show ?thesis using skip performed requeried decided by blast
qed

theorem checksum_verified_put_witness:
  "scp_file_copy_put quiet_env ''x.tgz'' ''/var/tmp/x.tgz'' module0 =
     (Returned (''File already present, skipping the scp'', False),
      after module0 [LocalHash ''x.tgz'', RpcGetChecksum ''/var/tmp/x.tgz''])
   \<and> scp_file_copy_put fresh_env ''x.tgz'' ''/var/tmp/x.tgz'' module0 =
     (Returned (''File pushed OK'', True),
      after module0 [LocalHash ''x.tgz'', RpcGetChecksum ''/var/tmp/x.tgz'',
                     ScpPut ''x.tgz'' ''/var/tmp/x.tgz'', RpcGetChecksum ''/var/tmp/x.tgz''])
   \<and> ftp_file_copy_put corrupt_env ''x.tgz'' ''/var/tmp/x.tgz'' module0 =
     (Failed (''Transfer failed (different MD5 between local and remote) ''
               @ ''0cc175b9c0f1b6a831c399e269772661 | 92eb5ffee6ae2fec3ad71c777531578f''),
      (after module0 [LocalHash ''x.tgz'', RpcGetChecksum ''/var/tmp/x.tgz'',
                     FtpPut ''x.tgz'' ''/var/tmp/x.tgz'', RpcGetChecksum ''/var/tmp/x.tgz'',
                     DevClose])\<lparr>dev := None\<rparr>)"
proof -
  let ?d = "''0cc175b9c0f1b6a831c399e269772661''"
  have s: "(scp_file_copy_put, scp_put_call) \<in>
                {(scp_file_copy_put, scp_put_call), (ftp_file_copy_put, ftp_put_call)}"
    by simp
  have f: "(ftp_file_copy_put, ftp_put_call) \<in>
                {(scp_file_copy_put, scp_put_call), (ftp_file_copy_put, ftp_put_call)}"
    by simp
  have l1: "fst (local_md5 quiet_env ''x.tgz'' ''put'' module0) = Returned ?d"
    by (simp add: eval_defs)
  have r1: "fst (remote_md5 quiet_env ''/var/tmp/x.tgz'' ''put''
                  (after module0 [LocalHash ''x.tgz''])) = Returned ?d"
    by (simp add: eval_defs)
  have l2: "fst (local_md5 fresh_env ''x.tgz'' ''put'' module0) = Returned ?d"
    by (simp add: eval_defs fresh_env_def)
  have r2: "fst (remote_md5 fresh_env ''/var/tmp/x.tgz'' ''put''
                  (after module0 [LocalHash ''x.tgz''])) = Returned ''no_file''"
    by (simp add: eval_defs fresh_env_def)
  have l3: "fst (local_md5 corrupt_env ''x.tgz'' ''put'' module0) = Returned ?d"
    by (simp add: eval_defs corrupt_env_def)
  have r3: "fst (remote_md5 corrupt_env ''/var/tmp/x.tgz'' ''put''
                  (after module0 [LocalHash ''x.tgz'']))
              = Returned ''92eb5ffee6ae2fec3ad71c777531578f''"
    by (simp add: eval_defs corrupt_env_def)
  show ?thesis
    using checksum_verified_put [OF s l1 r1] checksum_verified_put [OF s l2 r2]
          checksum_verified_put [OF f l3 r3]
    by (simp add: eval_defs fresh_env_def corrupt_env_def transfer_failed_def)
qed

section \<open>Closing the configuration twice\<close>

text \<open>
  Claim C2, as stated, for every state of the module: closing the configuration when no
  session is open makes no call. On a connection that is not local this fails: the module
  holds no session reference there, and every call of \<^verbatim>\<open>close_configuration\<close> is forwarded to
  the session broker, the second one in a row as well.
\<close>

theorem close_configuration_counterexample:
  "config broker_module = None
   \<and> close_configuration quiet_env broker_module
       = (Returned (), after broker_module [BrokerCloseConfiguration])
   \<and> trace (after broker_module [BrokerCloseConfiguration]) \<noteq> trace broker_module
   \<and> close_configuration quiet_env (after broker_module [BrokerCloseConfiguration])
       = (Returned (), after broker_module [BrokerCloseConfiguration, BrokerCloseConfiguration])"
  by (simp add: broker_module_def close_configuration.simps perform_def record_call_def
        after_def quiet_env_def)

text \<open>
  Claim C2, amended. On a local connection, \<^verbatim>\<open>close_configuration\<close> with no session open
  returns with the module unchanged (no exception, no call); after any call of it the
  session reference is cleared, whether the teardown succeeded or not, and a second call in
  a row returns with the module unchanged. On a connection that is not local the call is
  forwarded to the session broker.
\<close>

theorem close_configuration_idempotent:
  "(conn_type st = ''local'' \<longrightarrow>
      (config st = None \<longrightarrow> close_configuration e st = (Returned (), st))
    \<and> config (snd (close_configuration e st)) = None
    \<and> close_configuration e (snd (close_configuration e st))
        = (Returned (), snd (close_configuration e st)))
   \<and> (conn_type st \<noteq> ''local'' \<longrightarrow>
        snd (close_configuration e st) = after st [BrokerCloseConfiguration])"
proof -
  have "conn_type (snd (close_configuration e st)) = conn_type st"
    using cleaned_conn_type [OF cleaned_close_configuration] .
  then have "close_configuration e (snd (close_configuration e st))
        = (Returned (), snd (close_configuration e st))" if "conn_type st = ''local''"
    using that close_configuration_clears [OF that, of e]
    by (simp add: close_configuration_closed)
  moreover have "snd (close_configuration e st) = after st [BrokerCloseConfiguration]"
    if "conn_type st \<noteq> ''local''"
    using that by (simp add: close_configuration.simps perform_after split: option.splits)
  ultimately show ?thesis
    using close_configuration_clears [of st e] close_configuration_closed [of st e] by blast
qed

theorem close_configuration_idempotent_witness:
  "close_configuration stuck_env locked_module
     = (Failed ''Unable to close the configuration: unlock failed'',
        (after module0 [ConfigUnlock, DevClose])\<lparr>dev := None\<rparr>)
   \<and> config (snd (close_configuration stuck_env locked_module)) = None
   \<and> close_configuration stuck_env (snd (close_configuration stuck_env locked_module))
       = (Returned (), snd (close_configuration stuck_env locked_module))
   \<and> close_configuration stuck_env module0 = (Returned (), module0)"
proof -
  have l: "conn_type locked_module = ''local''" "conn_type module0 = ''local''"
    "config module0 = None"
    by (simp_all add: locked_module_def module0_def)
  have f: "close_configuration stuck_env locked_module
     = (Failed ''Unable to close the configuration: unlock failed'',
        (after module0 [ConfigUnlock, DevClose])\<lparr>dev := None\<rparr>)"
    by (simp add: locked_module_def module0_def stuck_env_def quiet_env_def
          close_configuration.simps fail_json.simps teardown_def close_def perform_def
          record_call_def after_def)
  show ?thesis
    using close_configuration_idempotent [of locked_module stuck_env]
          close_configuration_idempotent [of module0 stuck_env] l f
    by simp
qed

section \<open>Failures inside a batch of RPCs\<close>


text \<open>
  On a connection that is not local the exception of the broker is looked at by its text.
  One that names neither class is dropped: the first RPC of a run then ends \<^verbatim>\<open>main\<close> with
  the \<open>UnboundLocalError\<close> of the variable \<^verbatim>\<open>resp\<close>.
\<close>

lemma rpc_dropped_exception:
  "rpc_main timeout_env batch_task broker_module =
     (Raised (Exn UnboundLocalError ''local variable resp referenced before assignment''),
      after broker_module
        [BrokerGetRpc \<lparr>q_name = ''get-software-information'', q_format = ''xml'',
                        q_children = [], q_attrs = []\<rparr> PNone])"
  by (simp add: rpc_eval_defs timeout_env_def batch_task_def broker_module_def eval_defs)



section \<open>Rollback identifiers\<close>

text \<open>
  Claim C4, as stated, for the value \<^verbatim>\<open>bogus\<close>: validation would fail without any call to the
  device. The failure is reported through \<^verbatim>\<open>fail_json\<close>, which first closes the connection
  to the device, and before that releases the lock when a session is open.
\<close>

theorem rollback_ids_counterexample:
  "parse_rollback_option quiet_env (RbStr ''bogus'') module0
     = (Failed (''The value of the rollback option (bogus) is invalid. ''
                 @ ''Must be the string 'rescue' or an int between 0 and 49.''),
        (after module0 [DevClose])\<lparr>dev := None\<rparr>)
   \<and> parse_rollback_option quiet_env (RbStr ''bogus'') locked_module
     = (Failed (''The value of the rollback option (bogus) is invalid. ''
                 @ ''Must be the string 'rescue' or an int between 0 and 49.''),
        (after module0 [ConfigUnlock, DevClose])\<lparr>dev := None\<rparr>)"
  by (simp add: parse_rollback_option_def rollback_invalid_def str_rb_def
        dec_int_def digit_of_def locked_module_def teardown_def and_then_fail_json eval_defs)

text \<open>
  The option reaches \<^verbatim>\<open>rollback_configuration\<close> through \<^verbatim>\<open>parse_rollback_option\<close>, which lets
  no string but \<^verbatim>\<open>rescue\<close> through. Handed another string directly, \<^verbatim>\<open>rollback_configuration\<close>
  compares it with \<open>0\<close>, which raises \<open>TypeError\<close>.
\<close>

lemma rollback_configuration_string:
  "rollback_configuration quiet_env (RbStr ''bogus'') private_module
     = (Raised (Exn TypeError ''>= not supported between instances of str and int''),
        private_module)"
  by (simp add: rollback_configuration_def private_module_def module0_def)

text \<open>
  Claim C4, amended. With a session open on a local connection: the string \<^verbatim>\<open>rescue\<close> passes
  \<^verbatim>\<open>parse_rollback_option\<close> unchanged and \<^verbatim>\<open>rollback_configuration\<close> then reloads the rescue
  configuration; a string that \<^verbatim>\<open>int()\<close> reads as \<open>i\<close> with \<open>0 \<le> i \<le> 49\<close> is parsed to \<open>i\<close> and
  \<^verbatim>\<open>rollback_configuration\<close> then loads rollback \<open>i\<close>; every other value of the option goes
  straight to the failure exit with a message that names the value, and an integer outside
  the range handed to \<^verbatim>\<open>rollback_configuration\<close> does the same. In both failures no call
  precedes the failure exit and no rollback call is made: the only calls are those by
  which the failure exit closes the session and the connection.
\<close>

theorem rollback_ids:
  assumes "conn_type st = ''local''" and "dev st \<noteq> None" and "config st \<noteq> None"
  shows "parse_rollback_option e (RbStr ''rescue'') st = (Returned (RbStr ''rescue''), st)
       \<and> (\<exists>tr. trace (snd (rollback_configuration e (RbStr ''rescue'') st))
                 = trace st @ ConfigRescue # tr)
       \<and> (\<forall>s i. s \<noteq> ''rescue'' \<and> py_int e s = Some i \<and> 0 \<le> i \<and> i \<le> 49 \<longrightarrow>
             parse_rollback_option e (RbStr s) st = (Returned (RbInt i), st)
           \<and> (\<exists>tr. trace (snd (rollback_configuration e (RbInt i) st))
                     = trace st @ ConfigRollback i # tr))
       \<and> (\<forall>v. v \<noteq> RbNone \<and> v \<noteq> RbStr ''rescue''
               \<and> \<not> (\<exists>s i. v = RbStr s \<and> py_int e s = Some i \<and> 0 \<le> i \<and> i \<le> 49) \<longrightarrow>
             parse_rollback_option e v st =
               and_then (cleanup e st) (\<lambda>_ s. (Failed (rollback_invalid v), s))
           \<and> py_in (str_rb v) (rollback_invalid v)
           \<and> (\<exists>tr. trace (snd (parse_rollback_option e v st)) = trace st @ tr
                   \<and> filter is_rollback_call tr = []))
       \<and> (\<forall>i. i < 0 \<or> 49 < i \<longrightarrow>
             rollback_configuration e (RbInt i) st =
               and_then (cleanup e st)
                 (\<lambda>_ s. (Failed (''Unrecognized rollback configuraton value: '' @ str_int i), s))
           \<and> (\<exists>tr. trace (snd (rollback_configuration e (RbInt i) st)) = trace st @ tr
                   \<and> filter is_rollback_call tr = []))"
    (is "?a \<and> ?b \<and> ?c \<and> ?d \<and> ?e")
proof -
  have a: ?a by (simp add: parse_rollback_option_def)
  have b: ?b
    using assms guarded_trace [of e ConfigRescue _ st]
    by (auto simp: rollback_configuration_def)
  have c: ?c
  proof (intro allI impI)
    fix s i
    assume h: "s \<noteq> ''rescue'' \<and> py_int e s = Some i \<and> 0 \<le> i \<and> i \<le> 49"
    then have "parse_rollback_option e (RbStr s) st = (Returned (RbInt i), st)"
      by (simp add: parse_rollback_option_def)
    moreover have "\<exists>tr. trace (snd (rollback_configuration e (RbInt i) st))
                     = trace st @ ConfigRollback i # tr"
      using assms h guarded_trace [of e "ConfigRollback i" _ st]
      by (auto simp: rollback_configuration_def)
    ultimately show "parse_rollback_option e (RbStr s) st = (Returned (RbInt i), st)
           \<and> (\<exists>tr. trace (snd (rollback_configuration e (RbInt i) st))
                     = trace st @ ConfigRollback i # tr)"
      by blast
  qed
  have fails: "\<exists>tr. trace (snd (and_then (cleanup e st) (\<lambda>_ s. (Failed m, s)))) = trace st @ tr
                   \<and> filter is_rollback_call tr = []" for m :: string
  proof -
    have "cleaned st (snd (and_then (fail_json e m st) (\<lambda>_ s. (Failed m, s))))"
      by (rule cleaned_fail_json)
    then show ?thesis
      unfolding and_then_fail_json
      using cleaned_trace cleanup_no_rollback by blast
  qed
  have d: ?d
  proof (intro allI impI)
    fix v
    assume h: "v \<noteq> RbNone \<and> v \<noteq> RbStr ''rescue''
               \<and> \<not> (\<exists>s i. v = RbStr s \<and> py_int e s = Some i \<and> 0 \<le> i \<and> i \<le> 49)"
    have eq: "parse_rollback_option e v st =
               and_then (cleanup e st) (\<lambda>_ s. (Failed (rollback_invalid v), s))"
      using h
      by (cases v; cases "py_int e (case v of RbStr s \<Rightarrow> s | _ \<Rightarrow> [])")
         (auto simp: parse_rollback_option_def and_then_fail_json)
    have nm: "py_in (str_rb v) (rollback_invalid v)"
      unfolding rollback_invalid_def by (rule py_in_append)
    show "parse_rollback_option e v st =
               and_then (cleanup e st) (\<lambda>_ s. (Failed (rollback_invalid v), s))
           \<and> py_in (str_rb v) (rollback_invalid v)
           \<and> (\<exists>tr. trace (snd (parse_rollback_option e v st)) = trace st @ tr
                   \<and> filter is_rollback_call tr = [])"
      using eq nm fails [of "rollback_invalid v"] by simp
  qed
  have e: ?e
  proof (intro allI impI)
    fix i :: int
    assume h: "i < 0 \<or> 49 < i"
    have eq: "rollback_configuration e (RbInt i) st =
               and_then (cleanup e st)
                 (\<lambda>_ s. (Failed (''Unrecognized rollback configuraton value: '' @ str_int i), s))"
      using assms h by (auto simp: rollback_configuration_def fail_json_cleanup)
    show "rollback_configuration e (RbInt i) st =
               and_then (cleanup e st)
                 (\<lambda>_ s. (Failed (''Unrecognized rollback configuraton value: '' @ str_int i), s))
           \<and> (\<exists>tr. trace (snd (rollback_configuration e (RbInt i) st)) = trace st @ tr
                   \<and> filter is_rollback_call tr = [])"
      using eq fails [of "''Unrecognized rollback configuraton value: '' @ str_int i"] by simp
  qed
  show ?thesis using a b c d e by blast
qed

theorem rollback_ids_witness:
  "parse_rollback_option quiet_env (RbStr ''7'') private_module
     = (Returned (RbInt 7), private_module)
   \<and> rollback_configuration quiet_env (RbInt 7) private_module
     = (Returned (), after private_module [ConfigRollback 7])
   \<and> rollback_configuration quiet_env (RbStr ''rescue'') private_module
     = (Returned (), after private_module [ConfigRescue])
   \<and> parse_rollback_option quiet_env (RbStr ''50'') private_module
     = (Failed (''The value of the rollback option (50) is invalid. ''
                 @ ''Must be the string 'rescue' or an int between 0 and 49.''),
        (after module0 [RpcCloseConfiguration, DevClose])\<lparr>dev := None\<rparr>)
   \<and> parse_rollback_option quiet_env (RbStr ''-1'') private_module
     = (Failed (''The value of the rollback option (-1) is invalid. ''
                 @ ''Must be the string 'rescue' or an int between 0 and 49.''),
        (after module0 [RpcCloseConfiguration, DevClose])\<lparr>dev := None\<rparr>)
   \<and> parse_rollback_option quiet_env (RbStr ''bogus'') private_module
     = (Failed (''The value of the rollback option (bogus) is invalid. ''
                 @ ''Must be the string 'rescue' or an int between 0 and 49.''),
        (after module0 [RpcCloseConfiguration, DevClose])\<lparr>dev := None\<rparr>)"
proof -
  have s: "conn_type private_module = ''local''" "dev private_module \<noteq> None"
    "config private_module \<noteq> None"
    by (simp_all add: private_module_def module0_def)
  have i: "py_int quiet_env ''7'' = Some 7" "py_int quiet_env ''50'' = Some 50"
    "py_int quiet_env ''-1'' = Some (- 1)" "py_int quiet_env ''bogus'' = None"
    by (simp_all add: quiet_env_def dec_int_def digit_of_def)
  have c: "cleanup quiet_env private_module
             = (Returned (), (after module0 [RpcCloseConfiguration, DevClose])\<lparr>dev := None\<rparr>)"
    by (simp add: private_module_def eval_defs teardown_def)
  note t = rollback_ids [OF s, of quiet_env]
  show ?thesis
    using t i c
    by (simp add: private_module_def rollback_configuration_def guarded_def eval_defs
          rollback_invalid_def str_rb_def)
qed

section \<open>Validation of the lists of a batch\<close>

text \<open>
  Claim C5. With \<open>n\<close> RPCs: a formats list whose length is neither 1 nor \<open>n\<close>, and a
  keyword or attribute bundle whose length is not \<open>n\<close>, end the run in the failure exit
  with no RPC executed (the only calls are those of the cleanup of the failure exit).
  When the run reaches \<^verbatim>\<open>exit_json\<close> there are \<open>n\<close> results; with a single format every result
  carries it; with \<open>n\<close> formats the results carry them in order; the results carry the
  keyword bundle in order, and \<^verbatim>\<open>None\<close> for a bundle that was not given.
\<close>

theorem rpc_validation:
  assumes rpcs: "t_rpcs t = Some rpcs"
  shows "(\<forall>fs. t_formats t = Some fs \<and> length fs \<noteq> 1 \<and> length fs \<noteq> length rpcs \<longrightarrow>
            (\<exists>msg tr. rpc_main e t st = exit_failure e msg st
               \<and> trace (snd (rpc_main e t st)) = trace st @ tr \<and> filter is_rpc_call tr = []))
       \<and> (\<forall>l. (t_kwargs t = Inr (Some l) \<or> t_attrs t = Inr (Some l))
               \<and> length l \<noteq> length rpcs \<longrightarrow>
            (\<exists>msg tr. rpc_main e t st = exit_failure e msg st
               \<and> trace (snd (rpc_main e t st)) = trace st @ tr \<and> filter is_rpc_call tr = []))
       \<and> (\<forall>p st'. rpc_main e t st = (Returned p, st') \<longrightarrow>
            length (results_of p) = length rpcs
          \<and> (\<forall>f. t_formats t = Some [f] \<longrightarrow> (\<forall>r \<in> set (results_of p). r_format r = f))
          \<and> (\<forall>fs. t_formats t = Some fs \<and> length fs = length rpcs \<longrightarrow>
                 map r_format (results_of p) = fs)
          \<and> (\<forall>l. t_kwargs t = Inr (Some l) \<longrightarrow> map r_kwargs (results_of p) = map Some l)
          \<and> (t_kwargs t = Inr None \<longrightarrow> (\<forall>r \<in> set (results_of p). r_kwargs r = None))
          \<and> (t_attrs t = Inr None \<longrightarrow> (\<forall>r \<in> set (results_of p). r_attrs r = None)))"
    (is "?formats \<and> ?bundles \<and> ?results")
proof -
  let ?n = "length rpcs"
  have fails: "\<exists>msg tr. rpc_main e t st = exit_failure e msg st
               \<and> trace (snd (rpc_main e t st)) = trace st @ tr \<and> filter is_rpc_call tr = []"
    if "rpc_main e t st = exit_failure e m st" for m
    using that exit_failure_trace [of e m st, where ?'a = exit_payload] by auto
  have f: ?formats
  proof (intro allI impI)
    fix fs
    assume h: "t_formats t = Some fs \<and> length fs \<noteq> 1 \<and> length fs \<noteq> ?n"
    then have "\<exists>m. check_formats (t_formats t) ?n = Inl m"
      by (cases "find (\<lambda>format. format \<notin> set RPC_OUTPUT_FORMAT_CHOICES) fs")
         (simp_all add: check_formats_def Let_def)
    then obtain m where "check_formats (t_formats t) ?n = Inl m" by blast
    then have "\<exists>m. rpc_main e t st = exit_failure e m st"
      using rpcs by (auto simp: rpc_main_def split: sum.splits)
    then show "\<exists>msg tr. rpc_main e t st = exit_failure e msg st
               \<and> trace (snd (rpc_main e t st)) = trace st @ tr \<and> filter is_rpc_call tr = []"
      using fails by blast
  qed
  have b: ?bundles
  proof (intro allI impI)
    fix l
    assume h: "(t_kwargs t = Inr (Some l) \<or> t_attrs t = Inr (Some l)) \<and> length l \<noteq> ?n"
    then have "(\<exists>m. check_kwargs (t_kwargs t) ?n = Inl m)
                \<or> (\<exists>m. check_attrs (t_attrs t) ?n = Inl m)"
      by (auto simp: check_kwargs_def check_attrs_def)
    then have "\<exists>m. rpc_main e t st = exit_failure e m st"
      using rpcs by (auto simp: rpc_main_def split: sum.splits)
    then show "\<exists>msg tr. rpc_main e t st = exit_failure e msg st
               \<and> trace (snd (rpc_main e t st)) = trace st @ tr \<and> filter is_rpc_call tr = []"
      using fails by blast
  qed
  have r: ?results
    using rpc_main_results [OF rpcs] by blast
  show ?thesis using f b r by blast
qed

theorem rpc_validation_witness:
  "fst (rpc_main quiet_env (three_task [''text'']) module0)
     = Returned (BatchResults [ok_result ''get-a'' ''text'', ok_result ''get-b'' ''text'',
                               ok_result ''get-c'' ''text''] False False)
   \<and> fst (rpc_main quiet_env (three_task [''text'', ''xml'', ''json'']) module0)
     = Returned (BatchResults [ok_result ''get-a'' ''text'', ok_result ''get-b'' ''xml'',
                               ok_result ''get-c'' ''json''] False False)
   \<and> rpc_main quiet_env (three_task [''text'', ''xml'']) module0
     = (Failed (''The formats option must have a single value, or one value per rpc. ''
                 @ ''There are 3 rpcs and 2 formats.''),
        (after module0 [DevClose])\<lparr>dev := None\<rparr>)"
proof -
  have r: "t_rpcs (three_task fs) = Some [''get_a'', ''get_b'', ''get_c'']" for fs
    by (simp add: three_task_def)
  have f: "t_formats (three_task fs) = Some fs" for fs
    by (simp add: three_task_def)
  have 1: "fst (rpc_main quiet_env (three_task [''text'']) module0)
     = Returned (BatchResults [ok_result ''get-a'' ''text'', ok_result ''get-b'' ''text'',
                               ok_result ''get-c'' ''text''] False False)"
    by (simp add: rpc_eval_defs three_task_def batch_task_def eval_defs ok_result_def)
  have 2: "fst (rpc_main quiet_env (three_task [''text'', ''xml'', ''json'']) module0)
     = Returned (BatchResults [ok_result ''get-a'' ''text'', ok_result ''get-b'' ''xml'',
                               ok_result ''get-c'' ''json''] False False)"
    by (simp add: rpc_eval_defs three_task_def batch_task_def eval_defs ok_result_def)
  have 3: "rpc_main quiet_env (three_task [''text'', ''xml'']) module0
     = (Failed (''The formats option must have a single value, or one value per rpc. ''
                 @ ''There are 3 rpcs and 2 formats.''),
        (after module0 [DevClose])\<lparr>dev := None\<rparr>)"
    by (simp add: rpc_eval_defs three_task_def batch_task_def eval_defs)
  show ?thesis
    using rpc_validation [OF r, of "[''text'']" quiet_env module0]
          rpc_validation [OF r, of "[''text'', ''xml'', ''json'']" quiet_env module0]
          rpc_validation [OF r, of "[''text'', ''xml'']" quiet_env module0]
          1 2 3 f
    by simp
qed

section \<open>The sentinel of the checksum queries\<close>



section \<open>The ignore-warning filter of the open-configuration RPC\<close>

text \<open>
  Claim C7, as stated, for a caller-supplied bool: the filter passed would include the
  built-in warning text. The code passes the bool itself; with \<^verbatim>\<open>False\<close> no warning is
  ignored at all.
\<close>

theorem open_configuration_filter_counterexample:
  "open_configuration quiet_env ''private'' (PBool False) None module0
     = (Returned (),
        (after module0 [RpcOpenConfiguration Private (PBool False)])\<lparr>config := Some ''private''\<rparr>)"
  by (simp add: open_configuration_def ignore_warn_of_def open_call_def CONFIG_MODE_CHOICES_def
        eval_defs)

text \<open>
  On a local connection with no session open, in one of the modes \<^verbatim>\<open>private\<close>, \<^verbatim>\<open>dynamic\<close>,
  \<^verbatim>\<open>batch\<close> and \<^verbatim>\<open>ephemeral\<close> (the device being open, or opening without error), the
  open-configuration RPC is issued, with the filter computed from the caller's value.
\<close>

lemma open_configuration_issues_rpc:
  assumes "conn_type st = ''local''" and "config st = None"
      and "mode \<in> {''private'', ''dynamic'', ''batch'', ''ephemeral''}"
      and "mode \<noteq> ''ephemeral'' \<longrightarrow> ephemeral_instance = None"
      and "dev st = None \<longrightarrow> timeout_param st \<noteq> None \<and> run e (trace st) DevOpen = None"
  shows "\<exists>flag F tr.
           trace (snd (open_configuration e mode ignore_warning ephemeral_instance st))
             = trace st @ (if dev st = None then [DevOpen] else [])
                 @ RpcOpenConfiguration flag F # tr
         \<and> flag = (if mode = ''private'' then Private else if mode = ''dynamic'' then Dynamic
                    else if mode = ''batch'' then Batch
                    else (case ephemeral_instance of None \<Rightarrow> Ephemeral
                          | Some i \<Rightarrow> EphemeralInstance i))
         \<and> F = (case ignore_warning of
                  PBool b \<Rightarrow> PBool b
                | PStr s \<Rightarrow> PList [PStr builtin_warning, PStr s]
                | PList xs \<Rightarrow> PList (PStr builtin_warning # xs)
                | _ \<Rightarrow> PList [PStr builtin_warning])"
proof -
  define F where "F = ignore_warn_of ignore_warning"
  define flag where "flag = (if mode = ''private'' then Private else if mode = ''dynamic'' then Dynamic
                    else if mode = ''batch'' then Batch
                    else (case ephemeral_instance of None \<Rightarrow> Ephemeral
                          | Some i \<Rightarrow> EphemeralInstance i))"
  define pre where "pre = (if dev st = None then [DevOpen] else [])"
  define st3 where "st3 = (if dev st = None then (after st [DevOpen])\<lparr>dev := timeout_param st\<rparr>
                           else st)"
  have oc: "open_call mode F ephemeral_instance = Some (RpcOpenConfiguration flag F)"
    using assms(3) by (auto simp: open_call_def flag_def split: option.splits)
  have valid: "mode \<in> set CONFIG_MODE_CHOICES"
    using assms(3) by (auto simp: CONFIG_MODE_CHOICES_def)
  have opened: "(if dev st = None then open_conn e st else (Returned (), st)) = (Returned (), st3)"
    using assms(5)
    by (auto simp: open_conn_def perform_after st3_def after_def)
  have tr3: "trace st3 = trace st @ pre"
    by (simp add: st3_def pre_def)
  have eq: "open_configuration e mode ignore_warning ephemeral_instance st =
      and_then (case perform e (RpcOpenConfiguration flag F) st3 of
                         (None, st4) \<Rightarrow> (Returned (), st4)
                       | (Some ex, st4) \<Rightarrow>
                           if cls ex = ConnectError \<or> cls ex = RpcError then
                             fail_json e (''Unable to open the configuration in '' @ mode
                               @ '' mode: '' @ message ex) st4
                           else (Raised ex, st4))
        (\<lambda>_ st5. (Returned (), st5\<lparr>config := Some mode\<rparr>))"
  proof -
    have ok: "\<not> (mode \<noteq> ''ephemeral'' \<and> ephemeral_instance \<noteq> None)"
      using assms(4) by auto
    show ?thesis
      unfolding open_configuration_def Let_def F_def [symmetric]
      using assms(1,2) valid opened oc
      by (simp only: ok if_False if_True not_not refl and_then.simps option.case simp_thms)
  qed
  have "\<exists>tr. trace (snd (open_configuration e mode ignore_warning ephemeral_instance st))
            = trace st3 @ RpcOpenConfiguration flag F # tr"
  proof (cases "run e (trace st3) (RpcOpenConfiguration flag F)")
    case None
    then show ?thesis unfolding eq by (simp add: perform_after)
  next
    case (Some ex)
    show ?thesis
    proof (cases "cls ex = ConnectError \<or> cls ex = RpcError")
      case False
      then show ?thesis unfolding eq using Some by (simp add: perform_after)
    next
      case True
      obtain tr where "trace (snd (and_then (fail_json e (''Unable to open the configuration in ''
              @ mode @ '' mode: '' @ message ex) (after st3 [RpcOpenConfiguration flag F]))
           (\<lambda>_ st5. (Returned (), st5\<lparr>config := Some mode\<rparr>))))
          = trace (after st3 [RpcOpenConfiguration flag F]) @ tr"
        using cleaned_trace [OF cleaned_fail_json] by blast
      then show ?thesis unfolding eq using Some True by (simp add: perform_after)
    qed
  qed
  then obtain tr where
    "trace (snd (open_configuration e mode ignore_warning ephemeral_instance st))
       = trace st @ pre @ RpcOpenConfiguration flag F # tr"
    using tr3 by auto
  moreover have "F = (case ignore_warning of
                  PBool b \<Rightarrow> PBool b
                | PStr s \<Rightarrow> PList [PStr builtin_warning, PStr s]
                | PList xs \<Rightarrow> PList (PStr builtin_warning # xs)
                | _ \<Rightarrow> PList [PStr builtin_warning])"
    by (simp add: F_def ignore_warn_of_def)
  ultimately show ?thesis
    unfolding pre_def flag_def by blast
qed

text \<open>
  Claim C7, amended. Every open-configuration request that a call of \<^verbatim>\<open>open_configuration\<close>
  issues (the RPC on a local connection, the forwarded request on a non-local one)
  carries this filter: for a caller-supplied string, the list of the built-in warning
  text and that string; for a caller-supplied list, the built-in text followed by the
  elements of the list; for no value, the built-in text alone; for a caller-supplied
  bool, the bool itself in place of the list. In a non-exclusive mode, on a local
  connection with no session open and the device open, that RPC is the first call made.
\<close>

theorem open_configuration_filter:
  "(\<forall>c \<in> set (drop (length (trace st))
                  (trace (snd (open_configuration e mode ignore_warning ephemeral_instance st)))).
      \<forall>flag m F. c = RpcOpenConfiguration flag F \<or> c = BrokerOpenConfiguration m F \<longrightarrow>
        F = (case ignore_warning of
               PBool b \<Rightarrow> PBool b
             | PStr s \<Rightarrow> PList [PStr builtin_warning, PStr s]
             | PList xs \<Rightarrow> PList (PStr builtin_warning # xs)
             | _ \<Rightarrow> PList [PStr builtin_warning]))
   \<and> (conn_type st = ''local'' \<and> config st = None \<and> dev st \<noteq> None
        \<and> mode \<in> {''private'', ''dynamic'', ''batch'', ''ephemeral''}
        \<and> (mode \<noteq> ''ephemeral'' \<longrightarrow> ephemeral_instance = None) \<longrightarrow>
      (\<exists>flag tr.
         trace (snd (open_configuration e mode ignore_warning ephemeral_instance st))
           = trace st @ RpcOpenConfiguration flag
               (case ignore_warning of
                  PBool b \<Rightarrow> PBool b
                | PStr s \<Rightarrow> PList [PStr builtin_warning, PStr s]
                | PList xs \<Rightarrow> PList (PStr builtin_warning # xs)
                | _ \<Rightarrow> PList [PStr builtin_warning]) # tr))"
proof (intro conjI ballI allI impI)
  fix c flag m F
  assume c: "c \<in> set (drop (length (trace st))
                  (trace (snd (open_configuration e mode ignore_warning ephemeral_instance st))))"
     and shape: "c = RpcOpenConfiguration flag F \<or> c = BrokerOpenConfiguration m F"
  obtain tr where tr:
    "trace (snd (open_configuration e mode ignore_warning ephemeral_instance st)) = trace st @ tr"
    "set tr \<subseteq> cleanup_calls \<union> {DevOpen, BrokerOpenConfiguration mode (ignore_warn_of ignore_warning)}
               \<union> set_option (open_call mode (ignore_warn_of ignore_warning) ephemeral_instance)"
    using extends_open_configuration [of mode ignore_warning ephemeral_instance st e]
    unfolding extends_def by blast
  have "c \<in> set tr"
    using c tr(1) by simp
  then have "c \<in> cleanup_calls \<union> {DevOpen, BrokerOpenConfiguration mode (ignore_warn_of ignore_warning)}
               \<union> set_option (open_call mode (ignore_warn_of ignore_warning) ephemeral_instance)"
    using tr(2) by blast
  then have "F = ignore_warn_of ignore_warning"
    using shape
    by (auto simp: cleanup_calls_def open_call_def split: if_splits option.splits)
  then show "F = (case ignore_warning of
               PBool b \<Rightarrow> PBool b
             | PStr s \<Rightarrow> PList [PStr builtin_warning, PStr s]
             | PList xs \<Rightarrow> PList (PStr builtin_warning # xs)
             | _ \<Rightarrow> PList [PStr builtin_warning])"
    by (simp add: ignore_warn_of_def)
next
  assume a: "conn_type st = ''local'' \<and> config st = None \<and> dev st \<noteq> None
        \<and> mode \<in> {''private'', ''dynamic'', ''batch'', ''ephemeral''}
        \<and> (mode \<noteq> ''ephemeral'' \<longrightarrow> ephemeral_instance = None)"
  then have "dev st = None \<longrightarrow> timeout_param st \<noteq> None \<and> run e (trace st) DevOpen = None"
    by auto
  from open_configuration_issues_rpc [of st mode ephemeral_instance e ignore_warning, OF _ _ _ _ this]
  show "\<exists>flag tr.
         trace (snd (open_configuration e mode ignore_warning ephemeral_instance st))
           = trace st @ RpcOpenConfiguration flag
               (case ignore_warning of
                  PBool b \<Rightarrow> PBool b
                | PStr s \<Rightarrow> PList [PStr builtin_warning, PStr s]
                | PList xs \<Rightarrow> PList (PStr builtin_warning # xs)
                | _ \<Rightarrow> PList [PStr builtin_warning]) # tr"
    using a by auto
qed

theorem open_configuration_filter_witness:
  "open_configuration quiet_env ''private'' (PStr ''statement not found'') None module0
     = (Returned (),
        (after module0 [RpcOpenConfiguration Private
           (PList [PStr ''uncommitted changes will be discarded on exit'',
                   PStr ''statement not found''])])\<lparr>config := Some ''private''\<rparr>)
   \<and> open_configuration quiet_env ''batch'' (PList [PStr ''a'', PStr ''b'']) None module0
     = (Returned (),
        (after module0 [RpcOpenConfiguration Batch
           (PList [PStr ''uncommitted changes will be discarded on exit'',
                   PStr ''a'', PStr ''b''])])\<lparr>config := Some ''batch''\<rparr>)
   \<and> open_configuration quiet_env ''dynamic'' (PBool True) None module0
     = (Returned (),
        (after module0 [RpcOpenConfiguration Dynamic (PBool True)])\<lparr>config := Some ''dynamic''\<rparr>)
   \<and> open_configuration quiet_env ''private'' (PStr ''statement not found'') None broker_module
     = (Returned (),
        after broker_module [BrokerOpenConfiguration ''private''
           (PList [PStr ''uncommitted changes will be discarded on exit'',
                   PStr ''statement not found''])])"
  using open_configuration_filter [of module0 quiet_env "''private''"
          "PStr ''statement not found''" None]
        open_configuration_filter [of module0 quiet_env "''batch''"
          "PList [PStr ''a'', PStr ''b'']" None]
        open_configuration_filter [of module0 quiet_env "''dynamic''" "PBool True" None]
        open_configuration_filter [of broker_module quiet_env "''private''"
          "PStr ''statement not found''" None]
  by (simp add: open_configuration_def ignore_warn_of_def open_call_def
        CONFIG_MODE_CHOICES_def builtin_warning_def broker_module_def eval_defs)

section \<open>The timeout of a commit\<close>




section \<open>The flag of the verified transfers\<close>



section \<open>Opening a configuration that is open\<close>

text \<open>
  The session reference is assigned on a local connection only: on any other connection
  \<^verbatim>\<open>open_configuration\<close> hands the request to the broker and leaves the reference as it is.
\<close>

lemma open_configuration_broker_keeps_config:
  "conn_type st \<noteq> ''local'' \<Longrightarrow>
     config (snd (open_configuration e mode ignore_warning ephemeral_instance st)) = config st"
  by (simp add: open_configuration_def Let_def perform_after split: option.splits)

text \<open>
  Claim C10. On a local connection, \<^verbatim>\<open>open_configuration\<close> with a session already open
  returns with the module unchanged, whatever the mode and the ephemeral instance are: no
  error, no call. With no session open, a mode outside the five choices, or an ephemeral
  instance with a mode that is not \<^verbatim>\<open>ephemeral\<close>, goes straight to the failure exit.
\<close>

theorem open_configuration_when_open:
  assumes "conn_type st = ''local''"
  shows "(config st \<noteq> None \<longrightarrow>
            open_configuration e mode ignore_warning ephemeral_instance st = (Returned (), st))
       \<and> (config st = None \<and> mode \<notin> set CONFIG_MODE_CHOICES \<longrightarrow>
            open_configuration e mode ignore_warning ephemeral_instance st =
              and_then (cleanup e st)
                (\<lambda>_ s. (Failed (''Invalid configuration mode: '' @ mode), s)))
       \<and> (config st = None \<and> mode \<in> set CONFIG_MODE_CHOICES \<and> mode \<noteq> ''ephemeral''
            \<and> ephemeral_instance \<noteq> None \<longrightarrow>
            open_configuration e mode ignore_warning ephemeral_instance st =
              and_then (cleanup e st)
                (\<lambda>_ s. (Failed (''Ephemeral instance is specified while the mode ''
                      @ ''is not ephemeral.Specify the mode as ephemeral or ''
                      @ ''do not specify the instance.''), s)))"
  using assms
  by (simp add: open_configuration_def Let_def and_then_fail_json)

theorem open_configuration_when_open_witness:
  "open_configuration quiet_env ''bogus'' PNone None private_module
     = (Returned (), private_module)
   \<and> open_configuration quiet_env ''private'' PNone (Some ''inst'') private_module
     = (Returned (), private_module)
   \<and> open_configuration quiet_env ''bogus'' PNone None module0
     = (Failed ''Invalid configuration mode: bogus'',
        (after module0 [DevClose])\<lparr>dev := None\<rparr>)
   \<and> open_configuration quiet_env ''private'' PNone (Some ''inst'') module0
     = (Failed (''Ephemeral instance is specified while the mode ''
                      @ ''is not ephemeral.Specify the mode as ephemeral or ''
                      @ ''do not specify the instance.''),
        (after module0 [DevClose])\<lparr>dev := None\<rparr>)"
proof -
  have l: "conn_type private_module = ''local''" "conn_type module0 = ''local''"
    by (simp_all add: private_module_def module0_def)
  have c: "cleanup quiet_env module0 = (Returned (), (after module0 [DevClose])\<lparr>dev := None\<rparr>)"
    by (simp add: eval_defs)
  have m: "config private_module \<noteq> None" "config module0 = None"
    "''bogus'' \<notin> set CONFIG_MODE_CHOICES" "''private'' \<in> set CONFIG_MODE_CHOICES"
    by (simp_all add: private_module_def module0_def CONFIG_MODE_CHOICES_def)
  show ?thesis
    using open_configuration_when_open [OF l(1), of quiet_env "''bogus''" PNone None]
          open_configuration_when_open [OF l(1), of quiet_env "''private''" PNone "Some ''inst''"]
          open_configuration_when_open [OF l(2), of quiet_env "''bogus''" PNone None]
          open_configuration_when_open [OF l(2), of quiet_env "''private''" PNone "Some ''inst''"]
          m c
    by simp
qed

end
